theory Spec2Isabelle
  imports
    Main
    "HOL-Library.Word"
    "HOL-Library.Char_ord"
    "HOL-Library.List_Lexorder"
    "HOL-Library.Multiset"
begin

unbundle bit_operations_syntax

section \<open>Data model\<close>

text \<open>
  A shallow embedding of the Go package \<open>onedrivefs\<close>. Go strings are byte strings and are
  modelled as \<^typ>\<open>string\<close>; with the character order of \<open>Char_ord\<close> and the
  lexicographic order of \<open>List_Lexorder\<close>, \<open>(<)\<close> on \<^typ>\<open>string\<close> is the byte-wise
  order of \<open>strings.Compare\<close>. Go's \<open>int64\<close> is \<^typ>\<open>64 word\<close> read with \<open>sint\<close>,
  \<open>fs.FileMode\<close> (a \<open>uint32\<close>) is \<^typ>\<open>32 word\<close>. Slice lengths and the count argument of
  \<open>ReadDir\<close> are unbounded integers: no computation on them leaves the range of Go's
  \<open>int\<close>. A \<open>time.Time\<close> is an integer offset from the zero instant.
\<close>

type_synonym header = "(string \<times> string list) list"
type_synonym time_Time = int
type_synonym FileMode = "32 word"

record InnerError =
  Date :: string
  RequestID :: string
  ClientRequestID :: string

record OneDriveAPIError =
  Code :: string
  Message :: string
  LocalizedMessage :: string
  InnerError :: "InnerError option"
  ResponseHeader :: header

text \<open>
  Go error values. \<open>ErrorString\<close> is what \<open>errors.New\<close> and \<open>fmt.Errorf\<close> build,
  \<open>PathError\<close> is \<open>*fs.PathError\<close>, \<open>APIError\<close> is \<open>*OneDriveAPIError\<close>. Errors
  that come from outside the package (the HTTP client, the context, the JSON decoder) are
  \<open>Foreign\<close> leaves, or \<open>Wrapped\<close> around another error when they have an \<open>Unwrap\<close>
  method (as \<open>*url.Error\<close> has).
\<close>

datatype error =
    ErrorString string
  | PathError string string error
  | ErrNotExist
  | ErrInvalid
  | EOF
  | APIError OneDriveAPIError
  | Wrapped string error
  | Foreign string

text \<open>A run-time panic is not an error value; it is a separate outcome.\<close>

datatype panic =
    NilPointerDereference
  | NegativeCount
  | ErrTooLarge
  | MakeSliceLenOutOfRange

datatype 'a res = Ok 'a | Err error | Panic panic

text \<open>
  A response body is the bytes it delivers, followed by a clean end of stream or by a read
  error.
\<close>

record body =
  bytes :: string
  readErr :: "error option"

record response =
  StatusCode :: int
  Status :: string
  Header :: header
  Body :: body

record request =
  Method :: string
  URL :: string
  RawQuery :: string

record URL =
  Scheme :: string
  Host :: string
  Path :: string

text \<open>
  The markers \<open>Folder\<close> and \<open>Root\<close> of a drive item are pointers to empty structs, of
  which the code only asks whether they are \<open>nil\<close>: they are booleans here, true for a
  marker that is present. The elements of a listing are pointers to items; they are taken
  to be non-\<open>nil\<close>, as the items the JSON decoder allocates are, so a listing is a list of
  items.
\<close>

record driveItem =
  ID :: string
  Name :: string
  DownloadURL :: string
  Description :: string
  Folder :: bool
  Root :: bool
  Size :: "64 word"
  CreatedDateTime :: time_Time
  LastModifiedDateTime :: time_Time

record driveItemsResponse =
  ODataContext :: string
  Count :: int
  DriveItems :: "driveItem list"

record fileInfo =
  name :: string
  size' :: "64 word"
  mode :: FileMode
  modTime :: time_Time
  isDir :: bool

record dirEntry =
  entry_fileInfo :: fileInfo

definition dirEntry_Name :: "dirEntry \<Rightarrow> string" where
  "dirEntry_Name d = name (entry_fileInfo d)"

definition dirEntry_IsDir :: "dirEntry \<Rightarrow> bool" where
  "dirEntry_IsDir d = isDir (entry_fileInfo d)"

text \<open>
  The directory bit \<open>fs.ModeDir\<close>, \<open>1 << 31\<close>, and the permission mask
  \<open>fs.ModePerm\<close>, \<open>0o777\<close> (octal).
\<close>

definition ModeDir :: FileMode where
  "ModeDir = push_bit 31 1"

definition ModePerm :: FileMode where
  "ModePerm = 7 * 64 + 7 * 8 + 7"

definition ItemNotFoundErrorCode :: string where
  "ItemNotFoundErrorCode = ''itemNotFound''"

subsection \<open>The world outside the package\<close>

text \<open>
  The functions of the Go standard library that the package calls are parameters of the
  model: the path functions of \<open>path/filepath\<close> (they depend on the host platform),
  \<open>url.PathEscape\<close>, \<open>url.Values.Encode\<close>, \<open>(*url.URL).Parse\<close> followed by
  \<open>String\<close>, the validation done by \<open>http.NewRequest\<close>, the JSON decoder at the three
  types it is used at, and the fresh \<open>http.Client\<close> that downloads file contents. A
  decoder returns \<open>None\<close> when it leaves a pointer \<open>nil\<close> (the JSON value \<open>null\<close>, or
  a missing \<open>error\<close> member). The memory of the host is a parameter as well:
  \<open>canAllocate n\<close> says whether a \<open>bytes.Buffer\<close> can be grown to hold \<open>n\<close> bytes.
\<close>

record env =
  IsAbs :: "string \<Rightarrow> bool"
  Clean :: "string \<Rightarrow> string"
  PathEscape :: "string \<Rightarrow> string"
  ValuesEncode :: "(string \<times> string list) list \<Rightarrow> string"
  URL_Parse :: "URL \<Rightarrow> string \<Rightarrow> error + string"
  http_NewRequest :: "string \<Rightarrow> string \<Rightarrow> error option"
  decodeError :: "body \<Rightarrow> error + OneDriveAPIError option"
  decodeItem :: "body \<Rightarrow> error + driveItem option"
  decodeItems :: "body \<Rightarrow> error + driveItemsResponse option"
  defaultClient :: "request \<Rightarrow> error + response"
  canAllocate :: "nat \<Rightarrow> bool"

text \<open>
  An \<open>*http.Client\<close> together with the context bound to the request is the function that
  \<open>client.Do(req.WithContext(ctx))\<close> computes: a response, or the error of the transport
  or of the cancelled context. Every request handed to a client is appended to a trace, so
  that "no network request" is a statement about the trace.
\<close>

type_synonym client = "request \<Rightarrow> error + response"
type_synonym trace = "request list"

text \<open>
  The context of an \<open>FS\<close> is part of its client function. In a directory handle the
  field \<open>getItemsOnce\<close> is the flag of the \<open>sync.Once\<close>, set once its closure has run;
  calls on a handle are modelled one after the other. The cursor \<open>offset\<close> starts at 0
  and is only ever increased by the length of a slice that has been made, so it is a
  natural number.
\<close>

record DriveOpts =
  DriveID :: string

record FS =
  client :: client
  opts :: DriveOpts

record openDir =
  dir_fileInfo :: fileInfo
  dir_fs :: FS
  dir_dirID :: string
  dir_driveID :: string
  getItemsOnce :: bool
  items :: "driveItem list"
  offset :: nat

record openFile =
  file_fileInfo :: fileInfo
  data :: body

datatype fs_File = Dir openDir | File openFile

section \<open>The remote item client\<close>

definition baseURL :: URL where
  "baseURL = \<lparr>Scheme = ''https'', Host = ''graph.microsoft.com'', Path = ''/v1.0/''\<rparr>"

definition newRequest :: "env \<Rightarrow> string \<Rightarrow> string \<Rightarrow> error + request" where
  "newRequest env method relativeURL =
     (case URL_Parse env baseURL relativeURL of
        Inl err \<Rightarrow> Inl err
      | Inr apiURL \<Rightarrow>
          (case http_NewRequest env method apiURL of
             Some err \<Rightarrow> Inl err
           | None \<Rightarrow> Inr \<lparr>Method = method, URL = apiURL, RawQuery = []\<rparr>))"

text \<open>
  \<open>doRequest\<close>: the target is a pointer to a pointer that is \<open>nil\<close> before the call, so
  the value left in it is an option; \<open>decode\<close> is the JSON decoder at the target's type.
\<close>

definition doRequest ::
  "env \<Rightarrow> client \<Rightarrow> request \<Rightarrow> (body \<Rightarrow> error + 'a option) \<Rightarrow> trace
     \<Rightarrow> (error + 'a option) \<times> trace" where
  "doRequest env cl req decode tr =
     (case cl req of
        Inl err \<Rightarrow> (Inl err, tr @ [req])
      | Inr resp \<Rightarrow>
          (if StatusCode resp \<ge> 400 then
             (case decodeError env (Body resp) of
                Inl err \<Rightarrow> (Inl (ErrorString (''unexpected error: '' @ Status resp)), tr @ [req])
              | Inr (Some oneDriveError) \<Rightarrow>
                  (Inl (APIError (oneDriveError\<lparr>ResponseHeader := Header resp\<rparr>)), tr @ [req])
              | Inr None \<Rightarrow>
                  (Inl (ErrorString (''unexpected error: '' @ Status resp)), tr @ [req]))
           else if StatusCode resp \<noteq> 204 then
             (case decode (Body resp) of
                Inl err \<Rightarrow> (Inl err, tr @ [req])
              | Inr target \<Rightarrow> (Inr target, tr @ [req]))
           else (Inr None, tr @ [req])))"

definition getDriveItemsByPath_apiURL :: "env \<Rightarrow> string \<Rightarrow> string \<Rightarrow> string" where
  "getDriveItemsByPath_apiURL env driveID itemPath =
     (let apiURL = ''me/drive/root'';
          apiURL = (if driveID \<noteq> [] then ''/v1.0/drives/'' @ PathEscape env driveID @ ''/root''
                    else apiURL);
          apiURL = (if itemPath \<noteq> [] then apiURL @ '':/'' @ PathEscape env itemPath
                    else apiURL)
      in apiURL)"

definition getDriveItemsByPath ::
  "env \<Rightarrow> client \<Rightarrow> string \<Rightarrow> string \<Rightarrow> trace \<Rightarrow> (error + driveItem option) \<times> trace" where
  "getDriveItemsByPath env cl driveID itemPath tr =
     (case newRequest env ''GET'' (getDriveItemsByPath_apiURL env driveID itemPath) of
        Inl err \<Rightarrow> (Inl err, tr)
      | Inr req \<Rightarrow> doRequest env cl req (decodeItem env) tr)"

definition listDriveItems_apiURL :: "env \<Rightarrow> string \<Rightarrow> string \<Rightarrow> string" where
  "listDriveItems_apiURL env driveID folderID =
     (let apiURL = ''me/drive/root/children'';
          apiURL = (if folderID \<noteq> []
                    then ''me/drive/items/'' @ PathEscape env folderID @ ''/children''
                    else apiURL);
          apiURL = (if driveID \<noteq> [] then
                      (let apiURL = ''me/drives/'' @ PathEscape env driveID @ ''/root/children''
                       in if folderID \<noteq> []
                          then ''me/drives/'' @ PathEscape env driveID @ ''/items/''
                                 @ PathEscape env folderID @ ''/children''
                          else apiURL)
                    else apiURL)
      in apiURL)"

definition listDriveItems ::
  "env \<Rightarrow> client \<Rightarrow> string \<Rightarrow> string \<Rightarrow> trace
     \<Rightarrow> (error + driveItemsResponse option) \<times> trace" where
  "listDriveItems env cl driveID folderID tr =
     (case newRequest env ''GET'' (listDriveItems_apiURL env driveID folderID) of
        Inl err \<Rightarrow> (Inl err, tr)
      | Inr req \<Rightarrow>
          doRequest env cl
            (req\<lparr>RawQuery := ValuesEncode env [(''$orderby'', [''name asc''])]\<rparr>)
            (decodeItems env) tr)"

section \<open>Directory and file handles\<close>

text \<open>The permission bits \<open>0o555\<close> (octal), that is \<open>5 * 64 + 5 * 8 + 5\<close>.\<close>

definition o555 :: FileMode where
  "o555 = 5 * 64 + 5 * 8 + 5"

text \<open>
  The body of the loop of \<open>(*openDir).ReadDir\<close>: the entry built from one drive item.
\<close>

definition ReadDir_entry :: "driveItem \<Rightarrow> dirEntry" where
  "ReadDir_entry item =
     (let mode = o555;
          mode = (if Folder item then mode OR ModeDir else mode)
      in \<lparr>entry_fileInfo =
            \<lparr>name = Name item,
             size' = Size item,
             mode = mode,
             modTime = LastModifiedDateTime item,
             isDir = Folder item\<rparr>\<rparr>)"

text \<open>
  \<open>d.getItemsOnce.Do(func() {...})\<close>, run sequentially: the flag of the \<open>sync.Once\<close> is
  the field \<open>getItemsOnce\<close>. The closure runs only while the flag is unset; the flag is set
  when the closure returns and also when it panics. The first component of the result is
  what the call leaves in the local variable \<open>err\<close> of \<open>ReadDir\<close>, which is \<open>nil\<close>
  whenever the closure does not run.
\<close>

definition getItemsOnce_Do ::
  "env \<Rightarrow> openDir \<Rightarrow> trace \<Rightarrow> (panic + error option) \<times> openDir \<times> trace" where
  "getItemsOnce_Do env d tr =
     (if getItemsOnce d then (Inr None, d, tr)
      else
        (case listDriveItems env (client (dir_fs d)) (dir_driveID d) (dir_dirID d) tr of
           (Inl err, tr') \<Rightarrow> (Inr (Some err), d\<lparr>getItemsOnce := True\<rparr>, tr')
         | (Inr None, tr') \<Rightarrow> (Inl NilPointerDereference, d\<lparr>getItemsOnce := True\<rparr>, tr')
         | (Inr (Some its), tr') \<Rightarrow>
             (Inr None, d\<lparr>getItemsOnce := True, items := DriveItems its\<rparr>, tr')))"

text \<open>
  The rest of \<open>ReadDir\<close>, after the listing is there. \<open>slices.SortFunc\<close> with
  \<open>strings.Compare\<close> on the names is \<open>sort_key\<close> on the name; Go's sort is not stable,
  so among entries of the same name the model fixes one of the orders Go may produce.
\<close>

definition ReadDir_batch :: "openDir \<Rightarrow> int \<Rightarrow> dirEntry list res \<times> openDir" where
  "ReadDir_batch d cnt =
     (let n = int (length (items d)) - int (offset d) in
      if n = 0 \<and> cnt > 0 then (Err EOF, d)
      else
        (let n = (if cnt > 0 \<and> n > cnt then cnt else n) in
         if n < 0 then (Panic MakeSliceLenOutOfRange, d)
         else
           (let list = map (\<lambda>i. ReadDir_entry (items d ! (offset d + i))) [0..<nat n]
            in (Ok (sort_key dirEntry_Name list), d\<lparr>offset := offset d + nat n\<rparr>))))"

definition openDir_ReadDir ::
  "env \<Rightarrow> openDir \<Rightarrow> int \<Rightarrow> trace \<Rightarrow> dirEntry list res \<times> openDir \<times> trace" where
  "openDir_ReadDir env d cnt tr =
     (case getItemsOnce_Do env d tr of
        (Inl p, d', tr') \<Rightarrow> (Panic p, d', tr')
      | (Inr (Some err), d', tr') \<Rightarrow> (Err err, d', tr')
      | (Inr None, d', tr') \<Rightarrow>
          (case ReadDir_batch d' cnt of (r, d'') \<Rightarrow> (r, d'', tr')))"

definition openDir_Read :: "openDir \<Rightarrow> int \<times> error" where
  "openDir_Read d = (0, PathError ''read'' (name (dir_fileInfo d)) ErrInvalid)"

definition fs_File_Stat :: "fs_File \<Rightarrow> fileInfo" where
  "fs_File_Stat file = (case file of Dir d \<Rightarrow> dir_fileInfo d | File f \<Rightarrow> file_fileInfo f)"

section \<open>The filesystem facade\<close>

definition OpenFS :: "client \<Rightarrow> DriveOpts \<Rightarrow> FS" where
  "OpenFS cl os = \<lparr>client = cl, opts = os\<rparr>"

definition backslash :: char where
  "backslash = CHR 0x5C"

definition validatePath :: "env \<Rightarrow> string \<Rightarrow> error option" where
  "validatePath env path =
     (if IsAbs env path then Some (ErrorString ''absolute paths are not allowed'')
      else if Clean env path \<noteq> path
        then Some (ErrorString ''relative path elements are not allowed'')
      else if backslash \<in> set path
        then Some (ErrorString ''backslashes are not allowed in path'')
      else None)"

definition strings_TrimPrefix :: "string \<Rightarrow> string \<Rightarrow> string" where
  "strings_TrimPrefix s pre = (if take (length pre) s = pre then drop (length pre) s else s)"

text \<open>
  \<open>errors.As\<close> with a target of type \<open>*OneDriveAPIError\<close>: the first error of that type
  on the \<open>Unwrap\<close> chain.
\<close>

fun errors_As :: "error \<Rightarrow> OneDriveAPIError option" where
  "errors_As (APIError e) = Some e"
| "errors_As (PathError _ _ err) = errors_As err"
| "errors_As (Wrapped _ err) = errors_As err"
| "errors_As _ = None"

definition notDownloadable :: string where
  "notDownloadable =
     ''the file is not downloadable, because the API didn'' @ [CHR 0x27]
       @ ''t provide download URL''"

definition FS_Open :: "env \<Rightarrow> FS \<Rightarrow> string \<Rightarrow> trace \<Rightarrow> fs_File res \<times> trace" where
  "FS_Open env f origName tr =
     (let nm = origName in
      case validatePath env nm of
        Some err \<Rightarrow> (Err (PathError ''open'' nm err), tr)
      | None \<Rightarrow>
          (let nm = (if nm = ''.'' then ''/'' else nm);
               itemPath = strings_TrimPrefix nm ''/''
           in case getDriveItemsByPath env (client f) (DriveID (opts f)) itemPath tr of
                (Inl err, tr') \<Rightarrow>
                  (case errors_As err of
                     Some odErr \<Rightarrow>
                       if Code odErr = ItemNotFoundErrorCode then (Err ErrNotExist, tr')
                       else (Err err, tr')
                   | None \<Rightarrow> (Err err, tr'))
              | (Inr None, tr') \<Rightarrow> (Panic NilPointerDereference, tr')
              | (Inr (Some item), tr') \<Rightarrow>
                  if Folder item then
                    (let nm = Name item;
                         nm = (if Root item then ''.'' else nm)
                     in (Ok (Dir \<lparr>dir_fileInfo =
                                    \<lparr>name = nm,
                                     size' = Size item,
                                     mode = o555 + ModeDir,
                                     modTime = LastModifiedDateTime item,
                                     isDir = True\<rparr>,
                                  dir_fs = f,
                                  dir_dirID = ID item,
                                  dir_driveID = DriveID (opts f),
                                  getItemsOnce = False,
                                  items = [],
                                  offset = 0\<rparr>), tr'))
                  else if DownloadURL item = [] then (Err (ErrorString notDownloadable), tr')
                  else
                    (case http_NewRequest env ''GET'' (DownloadURL item) of
                       Some err \<Rightarrow> (Err err, tr')
                     | None \<Rightarrow>
                         (let downloadReq =
                                \<lparr>Method = ''GET'', URL = DownloadURL item, RawQuery = []\<rparr>
                          in case defaultClient env downloadReq of
                               Inl err \<Rightarrow> (Err err, tr' @ [downloadReq])
                             | Inr resp \<Rightarrow>
                                 (Ok (File \<lparr>file_fileInfo =
                                               \<lparr>name = Name item,
                                                size' = Size item,
                                                mode = o555,
                                                modTime = LastModifiedDateTime item,
                                                isDir = False\<rparr>,
                                             data = Body resp\<rparr>),
                                  tr' @ [downloadReq])))))"

definition FS_Stat :: "env \<Rightarrow> FS \<Rightarrow> string \<Rightarrow> trace \<Rightarrow> fileInfo res \<times> trace" where
  "FS_Stat env f nm0 tr =
     (case validatePath env nm0 of
        Some err \<Rightarrow> (Err (PathError ''open'' nm0 err), tr)
      | None \<Rightarrow>
          (let nm = (if nm0 = ''.'' then ''/'' else nm0);
               itemPath = strings_TrimPrefix nm ''/''
           in case getDriveItemsByPath env (client f) (DriveID (opts f)) itemPath tr of
                (Inl err, tr') \<Rightarrow>
                  (case errors_As err of
                     Some odErr \<Rightarrow>
                       if Code odErr = ''itemNotFound'' then (Err ErrNotExist, tr')
                       else (Err err, tr')
                   | None \<Rightarrow> (Err err, tr'))
              | (Inr None, tr') \<Rightarrow> (Panic NilPointerDereference, tr')
              | (Inr (Some item), tr') \<Rightarrow>
                  if Folder item then
                    (let nm = Name item;
                         nm = (if Root item then ''.'' else nm)
                     in (Ok \<lparr>name = nm,
                             size' = Size item,
                             mode = o555 + ModeDir,
                             modTime = LastModifiedDateTime item,
                             isDir = True\<rparr>, tr'))
                  else
                    (Ok \<lparr>name = Name item,
                         size' = Size item,
                         mode = o555,
                         modTime = LastModifiedDateTime item,
                         isDir = False\<rparr>, tr')))"

text \<open>
  \<open>ReadFile\<close>. Go's \<open>int\<close> is taken at 64 bits, so the conversion \<open>int(size64)\<close> is a
  signed cast between words of the same length. \<open>bytes.Buffer.Grow\<close> panics on a negative
  count, and with \<open>bytes.ErrTooLarge\<close> when the buffer cannot be grown by the count.
  \<open>io.Copy\<close> reads the handle into the buffer until its first error: a directory's
  \<open>Read\<close> fails at once; a file delivers the bytes of its body and then the end of the
  stream or a read error, and the buffer panics with \<open>bytes.ErrTooLarge\<close> when it cannot
  hold them.
\<close>

type_synonym go_int = "64 word"

definition bytes_Buffer_Grow :: "env \<Rightarrow> int \<Rightarrow> panic option" where
  "bytes_Buffer_Grow env n =
     (if n < 0 then Some NegativeCount
      else if \<not> canAllocate env (nat n) then Some ErrTooLarge
      else None)"

definition io_Copy :: "env \<Rightarrow> fs_File \<Rightarrow> string res" where
  "io_Copy env file =
     (case file of
        Dir d \<Rightarrow> (case openDir_Read d of (n, err) \<Rightarrow> Err err)
      | File f \<Rightarrow>
          if \<not> canAllocate env (length (bytes (data f))) then Panic ErrTooLarge
          else
            (case readErr (data f) of
               None \<Rightarrow> Ok (bytes (data f))
             | Some err \<Rightarrow> if err = EOF then Ok (bytes (data f)) else Err err))"

definition FS_ReadFile :: "env \<Rightarrow> FS \<Rightarrow> string \<Rightarrow> trace \<Rightarrow> string res \<times> trace" where
  "FS_ReadFile env f nm tr =
     (case FS_Open env f nm tr of
        (Err err, tr') \<Rightarrow> (Err err, tr')
      | (Panic p, tr') \<Rightarrow> (Panic p, tr')
      | (Ok file, tr') \<Rightarrow>
          (let info = fs_File_Stat file;
               size64 = size' info;
               grown = (if (scast (scast size64 :: go_int) :: 64 word) = size64
                        then bytes_Buffer_Grow env (sint (scast size64 :: go_int))
                        else None)
           in case grown of
                Some p \<Rightarrow> (Panic p, tr')
              | None \<Rightarrow> (io_Copy env file, tr')))"

definition FS_ReadDir :: "env \<Rightarrow> FS \<Rightarrow> string \<Rightarrow> trace \<Rightarrow> dirEntry list res \<times> trace" where
  "FS_ReadDir env f nm tr =
     (case FS_Open env f nm tr of
        (Err err, tr') \<Rightarrow> (Err err, tr')
      | (Panic p, tr') \<Rightarrow> (Panic p, tr')
      | (Ok (File _), tr') \<Rightarrow>
          (Err (PathError ''readdir'' nm (ErrorString ''not implemented'')), tr')
      | (Ok (Dir dir), tr') \<Rightarrow>
          (case openDir_ReadDir env dir (- 1) tr' of (r, _, tr'') \<Rightarrow> (r, tr'')))"

section \<open>A caller, and the listing path in the specification's words\<close>

text \<open>
  A caller that drains a handle by bounded reads of one entry: it reads until the
  end-of-sequence error and appends the batches. The loop is bounded by fuel; the result
  is \<open>None\<close> when the fuel runs out before the end of the sequence.
\<close>

fun drain_by_one :: "env \<Rightarrow> nat \<Rightarrow> openDir \<Rightarrow> trace \<Rightarrow> dirEntry list res option" where
  "drain_by_one env 0 d tr = None"
| "drain_by_one env (Suc fuel) d tr =
     (case openDir_ReadDir env d 1 tr of
        (Err err, d', tr') \<Rightarrow> if err = EOF then Some (Ok []) else Some (Err err)
      | (Panic p, d', tr') \<Rightarrow> Some (Panic p)
      | (Ok batch, d', tr') \<Rightarrow>
          (case drain_by_one env fuel d' tr' of
             Some (Ok rest) \<Rightarrow> Some (Ok (batch @ rest))
           | r \<Rightarrow> r))"

text \<open>
  The path of the children listing as the specification words it:
  \<open>(me/drive|drives/{driveID})/(root|items/{folderID})/children\<close>, relative to the base
  URL. It is compared below with the path that \<open>listDriveItems\<close> builds.
\<close>

definition spec_children_path :: "env \<Rightarrow> string \<Rightarrow> string \<Rightarrow> string" where
  "spec_children_path env driveID folderID =
     (if driveID = [] then ''me/drive'' else ''drives/'' @ PathEscape env driveID)
     @ ''/'' @ (if folderID = [] then ''root'' else ''items/'' @ PathEscape env folderID)
     @ ''/children''"

definition orderby :: "(string \<times> string list) list" where
  "orderby = [(''$orderby'', [''name asc''])]"

section \<open>An instance of the library for evaluation\<close>

text \<open>
  To run the model on concrete inputs the library parameters are instantiated with the
  behaviour of Go on a POSIX host: \<open>filepath.IsAbs\<close> tests for a leading slash,
  \<open>filepath.Clean\<close> drops empty and \<open>.\<close> elements and resolves \<open>..\<close> lexically,
  \<open>url.PathEscape\<close> and \<open>url.QueryEscape\<close> percent-encode with upper-case digits.
  Reference resolution is given for references without dot segments, which is all the
  examples use. A buffer can grow up to \<open>2 ^ 48\<close> bytes, the largest allocation of the Go
  runtime on a 64-bit Linux host; a host with less memory fails earlier. The JSON decoders of the instance know nothing; an example replaces them
  by the decoding of its own bodies.
\<close>

definition alphanum :: string where
  "alphanum = ''abcdefghijklmnopqrstuvwxyzABCDEFGHIJKLMNOPQRSTUVWXYZ0123456789''"

definition upperhex :: string where
  "upperhex = ''0123456789ABCDEF''"

definition escape_byte :: "char \<Rightarrow> string" where
  "escape_byte c =
     [CHR ''%'', upperhex ! (of_char c div (16::nat)), upperhex ! (of_char c mod (16::nat))]"

definition go_PathEscape :: "string \<Rightarrow> string" where
  "go_PathEscape s =
     concat (map (\<lambda>c. if c \<in> set (alphanum @ ''-_.~$&+=:@'') then [c] else escape_byte c) s)"

definition go_QueryEscape :: "string \<Rightarrow> string" where
  "go_QueryEscape s =
     concat (map (\<lambda>c. if c \<in> set (alphanum @ ''-_.~'') then [c]
                       else if c = CHR '' '' then ''+'' else escape_byte c) s)"

fun join :: "string \<Rightarrow> string list \<Rightarrow> string" where
  "join sep [] = []"
| "join sep [x] = x"
| "join sep (x # y # ys) = x @ sep @ join sep (y # ys)"

definition go_ValuesEncode :: "(string \<times> string list) list \<Rightarrow> string" where
  "go_ValuesEncode v =
     join ''&''
       (concat (map (\<lambda>(k, vs). map (\<lambda>x. go_QueryEscape k @ ''='' @ go_QueryEscape x) vs)
                    (sort_key fst v)))"

fun split_slash :: "string \<Rightarrow> string list" where
  "split_slash [] = [] # []"
| "split_slash (c # cs) =
     (if c = CHR ''/'' then [] # split_slash cs
      else (case split_slash cs of [] \<Rightarrow> [c] # [] | seg # segs \<Rightarrow> (c # seg) # segs))"

text \<open>
  The elements are pushed on a stack kept in reverse; \<open>..\<close> pops a real element, is kept
  in front of a relative path and is dropped at the root.
\<close>

fun clean_elems :: "bool \<Rightarrow> string list \<Rightarrow> string list \<Rightarrow> string list" where
  "clean_elems rooted stack [] = rev stack"
| "clean_elems rooted stack (e # es) =
     (if e = [] \<or> e = ''.'' then clean_elems rooted stack es
      else if e = ''..'' then
        (case stack of
           [] \<Rightarrow> clean_elems rooted (if rooted then [] else [e]) es
         | t # rest \<Rightarrow>
             if t = ''..'' then clean_elems rooted (e # stack) es
             else clean_elems rooted rest es)
      else clean_elems rooted (e # stack) es)"

definition posix_IsAbs :: "string \<Rightarrow> bool" where
  "posix_IsAbs path = (take 1 path = ''/'')"

definition posix_Clean :: "string \<Rightarrow> string" where
  "posix_Clean path =
     (let rooted = (take 1 path = ''/'');
          out = (if rooted then ''/'' else []) @ join ''/'' (clean_elems rooted [] (split_slash path))
      in if out = [] then ''.'' else out)"

definition go_URL_Parse :: "URL \<Rightarrow> string \<Rightarrow> error + string" where
  "go_URL_Parse base ref =
     Inr (Scheme base @ ''://'' @ Host base @
          (if take 1 ref = ''/'' then ref
           else join ''/'' (butlast (split_slash (Path base))) @ ''/'' @ ref))"

definition posixEnv :: env where
  "posixEnv =
     \<lparr>IsAbs = posix_IsAbs,
      Clean = posix_Clean,
      PathEscape = go_PathEscape,
      ValuesEncode = go_ValuesEncode,
      URL_Parse = go_URL_Parse,
      http_NewRequest = (\<lambda>method url. None),
      decodeError = (\<lambda>b. Inl (Foreign ''unexpected end of JSON input'')),
      decodeItem = (\<lambda>b. Inl (Foreign ''unexpected end of JSON input'')),
      decodeItems = (\<lambda>b. Inl (Foreign ''unexpected end of JSON input'')),
      defaultClient = (\<lambda>req. Inl (Foreign ''no such host'')),
      canAllocate = (\<lambda>n. n \<le> 2 ^ 48)\<rparr>"

section \<open>An example drive\<close>

text \<open>
  A small remote drive for evaluation, after the fixture of the package's tests: the root
  folder holds \<open>subdir1\<close> and \<open>README.md\<close>, and the remote lists them in that order,
  which is not the order of their names. The client answers the requests for the root, for
  \<open>README.md\<close> and for the folders \<open>broken\<close> and \<open>huge\<close> (a folder whose reported
  size is the largest \<open>int64\<close>), fails at the transport when it lists
  \<open>broken\<close> or resolves \<open>slow\<close>, and answers every other request with the remote's
  not-found error. Bodies are short tags that the decoders of the example map
  to the decoded values.
\<close>

definition item_root :: driveItem where
  "item_root =
     \<lparr>ID = ''R'', Name = ''onedrivefs_test'', DownloadURL = [], Description = [],
      Folder = True, Root = True, Size = 62, CreatedDateTime = 0,
      LastModifiedDateTime = 1700\<rparr>"

definition item_README :: driveItem where
  "item_README =
     \<lparr>ID = ''F1'', Name = ''README.md'', DownloadURL = ''https://dl.example/F1'',
      Description = [], Folder = False, Root = False, Size = 33, CreatedDateTime = 0,
      LastModifiedDateTime = 1701\<rparr>"

definition item_subdir1 :: driveItem where
  "item_subdir1 =
     \<lparr>ID = ''D1'', Name = ''subdir1'', DownloadURL = [], Description = [],
      Folder = True, Root = False, Size = 29, CreatedDateTime = 0,
      LastModifiedDateTime = 1702\<rparr>"

definition item_broken :: driveItem where
  "item_broken =
     \<lparr>ID = ''B'', Name = ''broken'', DownloadURL = [], Description = [],
      Folder = True, Root = False, Size = 0, CreatedDateTime = 0,
      LastModifiedDateTime = 1703\<rparr>"

definition item_huge :: driveItem where
  "item_huge =
     \<lparr>ID = ''H'', Name = ''huge'', DownloadURL = [], Description = [],
      Folder = True, Root = False, Size = 0x7FFFFFFFFFFFFFFF, CreatedDateTime = 0,
      LastModifiedDateTime = 1704\<rparr>"

definition root_listing :: driveItemsResponse where
  "root_listing = \<lparr>ODataContext = [], Count = 2, DriveItems = [item_subdir1, item_README]\<rparr>"

definition notFound :: OneDriveAPIError where
  "notFound =
     \<lparr>Code = ''itemNotFound'', Message = ''Item does not exist'', LocalizedMessage = [],
      InnerError = None, ResponseHeader = []\<rparr>"

definition reply :: "int \<Rightarrow> string \<Rightarrow> string \<Rightarrow> error + response" where
  "reply code status tag =
     Inr \<lparr>StatusCode = code, Status = status, Header = [(''Request-Id'', [''42''])],
          Body = \<lparr>bytes = tag, readErr = None\<rparr>\<rparr>"

definition exampleClient :: client where
  "exampleClient req =
     (if URL req = ''https://graph.microsoft.com/v1.0/me/drive/root''
        then reply 200 ''200 OK'' ''root''
      else if URL req = ''https://graph.microsoft.com/v1.0/me/drive/root:/README.md''
        then reply 200 ''200 OK'' ''readme''
      else if URL req = ''https://graph.microsoft.com/v1.0/me/drive/root:/broken''
        then reply 200 ''200 OK'' ''broken''
      else if URL req = ''https://graph.microsoft.com/v1.0/me/drive/items/R/children''
        then reply 200 ''200 OK'' ''children of root''
      else if URL req = ''https://graph.microsoft.com/v1.0/me/drive/items/B/children''
        then Inl (Wrapped ''Get'' (Foreign ''context deadline exceeded''))
      else if URL req = ''https://graph.microsoft.com/v1.0/me/drive/root:/slow''
        then Inl (Wrapped ''Get'' (Foreign ''context deadline exceeded''))
      else if URL req = ''https://graph.microsoft.com/v1.0/me/drive/root:/huge''
        then reply 200 ''200 OK'' ''huge''
      else reply 404 ''404 Not Found'' ''not found'')"

definition exampleEnv :: env where
  "exampleEnv =
     posixEnv
       \<lparr>decodeError := (\<lambda>b. if bytes b = ''not found'' then Inr (Some notFound)
                             else if bytes b = ''{}'' then Inr None
                             else Inl (Foreign ''invalid character'')),
        decodeItem := (\<lambda>b. if bytes b = ''root'' then Inr (Some item_root)
                            else if bytes b = ''readme'' then Inr (Some item_README)
                            else if bytes b = ''broken'' then Inr (Some item_broken)
                            else if bytes b = ''huge'' then Inr (Some item_huge)
                            else Inl (Foreign ''invalid character'')),
        decodeItems := (\<lambda>b. if bytes b = ''children of root'' then Inr (Some root_listing)
                             else Inl (Foreign ''invalid character'')),
        defaultClient := (\<lambda>req. if URL req = ''https://dl.example/F1''
                                  then reply 200 ''200 OK'' ''This is a test dir for onedrivefs''
                                  else Inl (Foreign ''no such host''))\<rparr>"

definition exampleFS :: FS where
  "exampleFS = OpenFS exampleClient \<lparr>DriveID = []\<rparr>"

subsection \<open>Requests and handles of the example\<close>

definition root_request :: request where
  "root_request =
     \<lparr>Method = ''GET'', URL = ''https://graph.microsoft.com/v1.0/me/drive/root'',
      RawQuery = []\<rparr>"

definition root_children_request :: request where
  "root_children_request =
     \<lparr>Method = ''GET'',
      URL = ''https://graph.microsoft.com/v1.0/me/drive/items/R/children'',
      RawQuery = ''%24orderby=name+asc''\<rparr>"

definition root_dir :: openDir where
  "root_dir =
     \<lparr>dir_fileInfo =
        \<lparr>name = ''.'', size' = 62, mode = o555 + ModeDir, modTime = 1700, isDir = True\<rparr>,
      dir_fs = exampleFS, dir_dirID = ''R'', dir_driveID = [], getItemsOnce = False,
      items = [], offset = 0\<rparr>"

definition fetched_root_dir :: openDir where
  "fetched_root_dir = root_dir\<lparr>getItemsOnce := True, items := DriveItems root_listing\<rparr>"

definition broken_request :: request where
  "broken_request =
     \<lparr>Method = ''GET'', URL = ''https://graph.microsoft.com/v1.0/me/drive/root:/broken'',
      RawQuery = []\<rparr>"

definition broken_children_request :: request where
  "broken_children_request =
     \<lparr>Method = ''GET'',
      URL = ''https://graph.microsoft.com/v1.0/me/drive/items/B/children'',
      RawQuery = ''%24orderby=name+asc''\<rparr>"

definition broken_dir :: openDir where
  "broken_dir =
     \<lparr>dir_fileInfo =
        \<lparr>name = ''broken'', size' = 0, mode = o555 + ModeDir, modTime = 1703, isDir = True\<rparr>,
      dir_fs = exampleFS, dir_dirID = ''B'', dir_driveID = [], getItemsOnce = False,
      items = [], offset = 0\<rparr>"

definition huge_request :: request where
  "huge_request =
     \<lparr>Method = ''GET'', URL = ''https://graph.microsoft.com/v1.0/me/drive/root:/huge'',
      RawQuery = []\<rparr>"

definition huge_dir :: openDir where
  "huge_dir =
     \<lparr>dir_fileInfo =
        \<lparr>name = ''huge'', size' = 0x7FFFFFFFFFFFFFFF, mode = o555 + ModeDir, modTime = 1704,
         isDir = True\<rparr>,
      dir_fs = exampleFS, dir_dirID = ''H'', dir_driveID = [], getItemsOnce = False,
      items = [], offset = 0\<rparr>"

definition nope_request :: request where
  "nope_request =
     \<lparr>Method = ''GET'', URL = ''https://graph.microsoft.com/v1.0/me/drive/root:/nope'',
      RawQuery = []\<rparr>"

definition slow_request :: request where
  "slow_request =
     \<lparr>Method = ''GET'', URL = ''https://graph.microsoft.com/v1.0/me/drive/root:/slow'',
      RawQuery = []\<rparr>"

definition abs_path :: string where
  "abs_path = ''/etc/passwd''"

definition unclean_path :: string where
  "unclean_path = ''subdir1/../README.md''"

definition backslash_path :: string where
  "backslash_path = ''subdir1'' @ [backslash] @ ''subdir2''"

subsection \<open>Responses for the request layer\<close>

definition probe :: request where
  "probe = \<lparr>Method = ''GET'', URL = ''https://graph.microsoft.com/v1.0/me/drive/root:/nope'',
             RawQuery = []\<rparr>"

definition probeEnv :: env where
  "probeEnv =
     posixEnv\<lparr>decodeError := (\<lambda>b. if bytes b = ''not found'' then Inr (Some notFound)
                                   else if bytes b = ''{}'' then Inr None
                                   else Inl (Foreign ''invalid character''))\<rparr>"

definition answer :: "int \<Rightarrow> string \<Rightarrow> string \<Rightarrow> response" where
  "answer code status tag =
     \<lparr>StatusCode = code, Status = status, Header = [(''Retry-After'', [''7''])],
      Body = \<lparr>bytes = tag, readErr = None\<rparr>\<rparr>"

definition readme_request :: request where
  "readme_request =
     \<lparr>Method = ''GET'', URL = ''https://graph.microsoft.com/v1.0/me/drive/root:/README.md'',
      RawQuery = []\<rparr>"

section \<open>Properties of the directory handle\<close>

subsection \<open>One batch\<close>

lemma map_nth_window:
  "off + k \<le> length xs \<Longrightarrow> map (\<lambda>i. f (xs ! (off + i))) [0..<k] = map f (take k (drop off xs))"
  by (rule nth_equalityI) simp_all

lemma ReadDir_batch_EOF:
  "0 < cnt \<Longrightarrow> offset d = length (items d) \<Longrightarrow> ReadDir_batch d cnt = (Err EOF, d)"
  by (simp add: ReadDir_batch_def)

lemma ReadDir_batch_bounded:
  assumes "0 < cnt" and "offset d < length (items d)"
  shows "ReadDir_batch d cnt =
           (Ok (sort_key dirEntry_Name
                  (map ReadDir_entry (take (nat cnt) (drop (offset d) (items d))))),
            d\<lparr>offset := offset d + min (nat cnt) (length (items d) - offset d)\<rparr>)"
proof (cases "int (length (items d)) - int (offset d) > cnt")
  case True
  with assms have k: "offset d + nat cnt \<le> length (items d)" by linarith
  from True assms k show ?thesis
    by (simp add: ReadDir_batch_def Let_def map_nth_window min_def)
next
  case False
  with assms have k: "length (items d) - offset d \<le> nat cnt" by linarith
  have w: "offset d + (length (items d) - offset d) \<le> length (items d)" using assms by simp
  from False assms k show ?thesis
    by (simp add: ReadDir_batch_def Let_def map_nth_window[OF w] min_def nat_diff_distrib' of_nat_diff)
qed

lemma ReadDir_batch_all:
  assumes "cnt \<le> 0" and "offset d \<le> length (items d)"
  shows "ReadDir_batch d cnt =
           (Ok (sort_key dirEntry_Name (map ReadDir_entry (drop (offset d) (items d)))),
            d\<lparr>offset := length (items d)\<rparr>)"
proof -
  have w: "offset d + (length (items d) - offset d) \<le> length (items d)" using assms by simp
  from assms show ?thesis
    by (simp add: ReadDir_batch_def Let_def map_nth_window[OF w] nat_diff_distrib' of_nat_diff)
qed

lemma getItemsOnce_Do_done:
  "getItemsOnce d \<Longrightarrow> getItemsOnce_Do env d tr = (Inr None, d, tr)"
  by (simp add: getItemsOnce_Do_def)

lemma openDir_ReadDir_fetched:
  "getItemsOnce d \<Longrightarrow>
     openDir_ReadDir env d cnt tr = (case ReadDir_batch d cnt of (r, d') \<Rightarrow> (r, d', tr))"
  by (simp add: openDir_ReadDir_def getItemsOnce_Do_done)

text \<open>
  The cursor stays inside the listing: a handle as \<open>Open\<close> returns it has the cursor at
  0, and every call of \<open>ReadDir\<close> keeps the cursor at most the length of the listing.
\<close>

lemma ReadDir_batch_offset_in_range:
  assumes "offset d \<le> length (items d)" and "ReadDir_batch d cnt = (r, d')"
  shows "offset d' \<le> length (items d') \<and> items d' = items d \<and> offset d \<le> offset d'"
proof (cases "0 < cnt")
  case True
  show ?thesis
  proof (cases "offset d = length (items d)")
    case True
    with \<open>0 < cnt\<close> assms show ?thesis by (simp add: ReadDir_batch_EOF)
  next
    case False
    with assms have lt: "offset d < length (items d)" by simp
    then have "offset d + min (nat cnt) (length (items d) - offset d) \<le> length (items d)"
      by linarith
    with ReadDir_batch_bounded[OF True lt] assms(2) show ?thesis by auto
  qed
next
  case False
  then have "cnt \<le> 0" by simp
  from ReadDir_batch_all[OF this assms(1)] assms show ?thesis by auto
qed

lemma openDir_ReadDir_offset_in_range:
  assumes "offset d \<le> length (items d)" and "\<not> getItemsOnce d \<longrightarrow> offset d = 0"
    and "openDir_ReadDir env d cnt tr = (r, d', tr')"
  shows "offset d' \<le> length (items d')"
proof (cases "getItemsOnce d")
  case True
  with assms(3) obtain "ReadDir_batch d cnt = (r, d')"
    by (auto simp: openDir_ReadDir_fetched split: prod.splits)
  from ReadDir_batch_offset_in_range[OF assms(1) this] show ?thesis by blast
next
  case False
  with assms(2) have o: "offset d = 0" by simp
  show ?thesis
  proof (cases "listDriveItems env (client (dir_fs d)) (dir_driveID d) (dir_dirID d) tr")
    case (Pair res t)
    show ?thesis
    proof (cases res)
      case (Inl err)
      with Pair False assms(1,3) show ?thesis
        by (auto simp: openDir_ReadDir_def getItemsOnce_Do_def)
    next
      case (Inr v)
      show ?thesis
      proof (cases v)
        case None
        with Inr Pair False assms(1,3) show ?thesis
          by (auto simp: openDir_ReadDir_def getItemsOnce_Do_def)
      next
        case (Some resp)
        let ?d = "d\<lparr>getItemsOnce := True, items := DriveItems resp\<rparr>"
        from Some Inr Pair False assms(3) have "ReadDir_batch ?d cnt = (r, d')"
          by (auto simp: openDir_ReadDir_def getItemsOnce_Do_def split: prod.splits)
        moreover have "offset ?d \<le> length (items ?d)" using o by simp
        ultimately show ?thesis using ReadDir_batch_offset_in_range by blast
      qed
    qed
  qed
qed

lemma ReadDir_batch_sorted:
  "ReadDir_batch d cnt = (Ok es, d') \<Longrightarrow> sorted (map dirEntry_Name es)"
  by (auto simp: ReadDir_batch_def Let_def split: if_splits)

lemma openDir_ReadDir_sorted:
  "openDir_ReadDir env d cnt tr = (Ok es, d', tr') \<Longrightarrow> sorted (map dirEntry_Name es)"
  by (auto simp: openDir_ReadDir_def split: prod.splits sum.splits option.splits
           dest: ReadDir_batch_sorted)

lemma dirEntry_Name_ReadDir_entry [simp]: "dirEntry_Name (ReadDir_entry item) = Name item"
  by (simp add: dirEntry_Name_def ReadDir_entry_def Let_def)

lemma FS_Open_Dir_fresh:
  assumes "FS_Open env f p tr = (Ok (Dir dir), tr')"
  shows "dir_fs dir = f \<and> dir_driveID dir = DriveID (opts f) \<and> \<not> getItemsOnce dir
           \<and> items dir = [] \<and> offset dir = 0"
  using assms
  by (auto simp: FS_Open_def Let_def split: option.splits prod.splits sum.splits if_splits)

lemma openDir_ReadDir_fresh_all:
  assumes "\<not> getItemsOnce d" and "offset d = 0"
    and "listDriveItems env (client (dir_fs d)) (dir_driveID d) (dir_dirID d) tr = (Inr (Some resp), tr')"
    and "cnt \<le> 0"
  shows "openDir_ReadDir env d cnt tr =
           (Ok (sort_key dirEntry_Name (map ReadDir_entry (DriveItems resp))),
            d\<lparr>getItemsOnce := True, items := DriveItems resp, offset := length (DriveItems resp)\<rparr>, tr')"
  using assms
  by (simp add: openDir_ReadDir_def getItemsOnce_Do_def ReadDir_batch_all)

lemma sort_key_perm_unique:
  assumes "mset xs = mset ys" and "distinct (map f xs)"
  shows "sort_key f xs = sort_key f ys"
proof -
  have m: "mset (map f (sort_key f xs)) = mset (map f (sort_key f ys))"
    using assms(1) by simp
  have dx: "distinct (map f (sort_key f xs))"
    using assms(2) mset_eq_imp_distinct_iff[of "map f (sort_key f xs)" "map f xs"] by simp
  have dy: "distinct (map f (sort_key f ys))"
    using dx m mset_eq_imp_distinct_iff by blast
  have s: "set (map f (sort_key f xs)) = set (map f (sort_key f ys))"
    using m by (rule mset_eq_setD)
  have keys: "map f (sort_key f xs) = map f (sort_key f ys)"
    by (rule sorted_distinct_set_unique) (simp_all only: sorted_sort_key dx dy s)
  have "set xs = set ys" using assms(1) by (rule mset_eq_setD)
  moreover have "inj_on f (set xs)" using assms(2) by (simp add: distinct_map)
  ultimately have "inj_on f (set (sort_key f xs) \<union> set (sort_key f ys))" by simp
  from inj_on_map_eq_map[OF this] keys show ?thesis by simp
qed

lemma distinct_names_entries:
  "distinct (map Name its) \<Longrightarrow> distinct (map dirEntry_Name (map ReadDir_entry its))"
  by (simp add: comp_def)

text \<open>
  With pairwise distinct names, the sorted entries are the same for every order in which
  the remote may list the same children.
\<close>

lemma sorted_entries_order_independent:
  assumes "mset its' = mset its" and "distinct (map Name its)"
  shows "sort_key dirEntry_Name (map ReadDir_entry its')
           = sort_key dirEntry_Name (map ReadDir_entry its)"
proof (rule sort_key_perm_unique[symmetric])
  show "mset (map ReadDir_entry its) = mset (map ReadDir_entry its')"
    using assms(1) by simp
  show "distinct (map dirEntry_Name (map ReadDir_entry its))"
    using assms(2) by (rule distinct_names_entries)
qed

subsection \<open>Evaluating the example drive\<close>

lemmas example_defs =
  exampleFS_def OpenFS_def exampleClient_def exampleEnv_def posixEnv_def reply_def
  item_root_def item_README_def item_subdir1_def item_broken_def root_listing_def
  notFound_def root_request_def root_children_request_def root_dir_def

lemmas client_defs =
  newRequest_def doRequest_def getDriveItemsByPath_def getDriveItemsByPath_apiURL_def
  listDriveItems_def listDriveItems_apiURL_def baseURL_def

lemma posix_dot: "\<not> posix_IsAbs ''.''" "posix_Clean ''.'' = ''.''"
  by (simp_all add: posix_IsAbs_def posix_Clean_def)

lemma open_root: "FS_Open exampleEnv exampleFS ''.'' [] = (Ok (Dir root_dir), [root_request])"
  by (simp add: FS_Open_def validatePath_def posix_dot backslash_def strings_TrimPrefix_def
        example_defs client_defs go_URL_Parse_def Let_def )

lemma list_root:
  "listDriveItems exampleEnv (client exampleFS) (DriveID (opts exampleFS)) (dir_dirID root_dir)
     [root_request] = (Inr (Some root_listing), [root_request, root_children_request])"
  by (simp add: example_defs client_defs go_URL_Parse_def Let_def go_PathEscape_def alphanum_def)
    code_simp

lemma root_listing_distinct: "distinct (map Name (DriveItems root_listing))"
  by (simp add: example_defs)

lemma openDir_ReadDir_fresh:
  assumes "\<not> getItemsOnce d"
    and "listDriveItems env (client (dir_fs d)) (dir_driveID d) (dir_dirID d) tr
           = (Inr (Some resp), tr')"
  shows "openDir_ReadDir env d cnt tr =
           (case ReadDir_batch (d\<lparr>getItemsOnce := True, items := DriveItems resp\<rparr>) cnt of
              (r, d') \<Rightarrow> (r, d', tr'))"
  using assms by (simp add: openDir_ReadDir_def getItemsOnce_Do_def)

lemma root_dir_batch:
  "openDir_ReadDir exampleEnv root_dir 1 [root_request]
     = (Ok [ReadDir_entry item_subdir1],
        root_dir\<lparr>getItemsOnce := True, items := DriveItems root_listing, offset := 1\<rparr>,
        [root_request, root_children_request])"
proof -
  have f: "\<not> getItemsOnce root_dir" by (simp add: root_dir_def)
  have l: "listDriveItems exampleEnv (client (dir_fs root_dir)) (dir_driveID root_dir)
             (dir_dirID root_dir) [root_request]
           = (Inr (Some root_listing), [root_request, root_children_request])"
    using list_root by (simp add: root_dir_def exampleFS_def OpenFS_def)
  show ?thesis
    unfolding openDir_ReadDir_fresh[OF f l]
    by (simp add: root_dir_def ReadDir_batch_def root_listing_def Let_def)
qed

subsection \<open>The order of the entries\<close>

text \<open>
  Claim C1. When a path resolves to a directory and the listing of its children succeeds,
  the facade's \<open>ReadDir\<close> returns exactly the children's entries, in ascending order of
  their names, whatever the order of the listing; the order is strictly ascending when
  the children's names are pairwise distinct, as the names within one folder are. Every
  batch that the handle's \<open>ReadDir\<close> returns, for any handle and any count, is sorted
  ascending by name.
\<close>

theorem FS_ReadDir_sorted:
  assumes "FS_Open env f p tr = (Ok (Dir dir), tr1)"
    and "listDriveItems env (client f) (DriveID (opts f)) (dir_dirID dir) tr1
           = (Inr (Some resp), tr2)"
  shows "\<exists>es. FS_ReadDir env f p tr = (Ok es, tr2)
           \<and> mset es = mset (map ReadDir_entry (DriveItems resp))
           \<and> sorted (map dirEntry_Name es)
           \<and> (distinct (map Name (DriveItems resp)) \<longrightarrow>
                sorted_wrt (<) (map dirEntry_Name es))
           \<and> (\<forall>d cnt t bs d' t'.
                 openDir_ReadDir env d cnt t = (Ok bs, d', t') \<longrightarrow> sorted (map dirEntry_Name bs))"
proof -
  let ?es = "sort_key dirEntry_Name (map ReadDir_entry (DriveItems resp))"
  from FS_Open_Dir_fresh[OF assms(1)]
  have fresh: "dir_fs dir = f" "dir_driveID dir = DriveID (opts f)" "\<not> getItemsOnce dir"
    "offset dir = 0" by simp_all
  have l: "listDriveItems env (client (dir_fs dir)) (dir_driveID dir) (dir_dirID dir) tr1
             = (Inr (Some resp), tr2)"
    using assms(2) fresh by simp
  have rd: "FS_ReadDir env f p tr = (Ok ?es, tr2)"
    using assms(1) openDir_ReadDir_fresh_all[OF fresh(3) fresh(4) l, of "- 1"]
    by (simp add: FS_ReadDir_def)
  have ms: "mset ?es = mset (map ReadDir_entry (DriveItems resp))" by simp
  have so: "sorted (map dirEntry_Name ?es)" by (rule sorted_sort_key)
  have strict: "sorted_wrt (<) (map dirEntry_Name ?es)"
    if d: "distinct (map Name (DriveItems resp))"
  proof -
    have "mset (map dirEntry_Name ?es) = mset (map Name (DriveItems resp))"
      by (simp add: multiset.map_comp comp_def)
    then have "distinct (map dirEntry_Name ?es)"
      using d mset_eq_imp_distinct_iff by blast
    with so show ?thesis by (simp only: strict_sorted_iff)
  qed
  have batch: "\<forall>d cnt t bs d' t'.
                 openDir_ReadDir env d cnt t = (Ok bs, d', t') \<longrightarrow> sorted (map dirEntry_Name bs)"
    using openDir_ReadDir_sorted by blast
  from rd ms so strict batch show ?thesis by blast
qed

text \<open>
  The theorem at the root of the example drive, whose listing arrives as \<open>subdir1\<close>,
  \<open>README.md\<close>.
\<close>

theorem FS_ReadDir_sorted_witness:
  "FS_Open exampleEnv exampleFS ''.'' [] = (Ok (Dir root_dir), [root_request])
   \<and> listDriveItems exampleEnv (client exampleFS) (DriveID (opts exampleFS)) (dir_dirID root_dir)
        [root_request] = (Inr (Some root_listing), [root_request, root_children_request])
   \<and> distinct (map Name (DriveItems root_listing))
   \<and> (\<exists>es. FS_ReadDir exampleEnv exampleFS ''.'' [] = (Ok es, [root_request, root_children_request])
          \<and> mset es = mset (map ReadDir_entry (DriveItems root_listing))
          \<and> sorted_wrt (<) (map dirEntry_Name es))
   \<and> (\<exists>bs d' t'. openDir_ReadDir exampleEnv root_dir 1 [root_request] = (Ok bs, d', t')
          \<and> sorted (map dirEntry_Name bs))"
proof -
  from FS_ReadDir_sorted[OF open_root list_root] root_listing_distinct
  obtain es where
    es: "FS_ReadDir exampleEnv exampleFS ''.'' [] = (Ok es, [root_request, root_children_request])"
      "mset es = mset (map ReadDir_entry (DriveItems root_listing))"
      "sorted_wrt (<) (map dirEntry_Name es)"
    and batch: "\<forall>d cnt t bs d' t'. openDir_ReadDir exampleEnv d cnt t = (Ok bs, d', t')
                  \<longrightarrow> sorted (map dirEntry_Name bs)"
    by blast
  from batch root_dir_batch
  have "sorted (map dirEntry_Name [ReadDir_entry item_subdir1])" by blast
  with root_dir_batch have
    "\<exists>bs d' t'. openDir_ReadDir exampleEnv root_dir 1 [root_request] = (Ok bs, d', t')
       \<and> sorted (map dirEntry_Name bs)" by blast
  with es open_root list_root root_listing_distinct show ?thesis by blast
qed

subsection \<open>The cursor\<close>

text \<open>
  Claim C7. On a handle whose listing has been fetched, with the cursor inside the
  listing: a call with a positive count returns the end-of-sequence error, and leaves the
  handle as it is, when no entry remains; otherwise it returns the entries of the next
  \<open>min count remaining\<close> items from the cursor on (sorted by name within the batch), at
  least one and at most \<open>count\<close>, and advances the cursor by their number. A call with a
  negative count returns the entries of all remaining items and moves the cursor to the
  end; on a drained handle that is the empty list, without an error. No call on a fetched
  handle sends a request.
\<close>

theorem ReadDir_cursor:
  assumes "getItemsOnce d" and "offset d \<le> length (items d)"
  shows "(0 < cnt \<and> offset d = length (items d) \<longrightarrow>
            openDir_ReadDir env d cnt tr = (Err EOF, d, tr))
       \<and> (0 < cnt \<and> offset d < length (items d) \<longrightarrow>
            (\<exists>es. openDir_ReadDir env d cnt tr = (Ok es, d\<lparr>offset := offset d + length es\<rparr>, tr)
               \<and> es = sort_key dirEntry_Name
                         (map ReadDir_entry (take (length es) (drop (offset d) (items d))))
               \<and> length es = min (nat cnt) (length (items d) - offset d)
               \<and> 0 < length es \<and> int (length es) \<le> cnt))
       \<and> (cnt < 0 \<longrightarrow>
            openDir_ReadDir env d cnt tr =
              (Ok (sort_key dirEntry_Name (map ReadDir_entry (drop (offset d) (items d)))),
               d\<lparr>offset := length (items d)\<rparr>, tr))
       \<and> (cnt < 0 \<and> offset d = length (items d) \<longrightarrow>
            openDir_ReadDir env d cnt tr = (Ok [], d, tr))"
proof (intro conjI impI)
  assume "0 < cnt \<and> offset d = length (items d)"
  then show "openDir_ReadDir env d cnt tr = (Err EOF, d, tr)"
    using assms(1) by (simp add: openDir_ReadDir_fetched ReadDir_batch_EOF)
next
  assume a: "0 < cnt \<and> offset d < length (items d)"
  let ?k = "min (nat cnt) (length (items d) - offset d)"
  let ?es = "sort_key dirEntry_Name (map ReadDir_entry (take (nat cnt) (drop (offset d) (items d))))"
  have len: "length ?es = ?k" by simp
  have tk: "take ?k (drop (offset d) (items d)) = take (nat cnt) (drop (offset d) (items d))"
    by (simp add: min_def)
  have r: "openDir_ReadDir env d cnt tr = (Ok ?es, d\<lparr>offset := offset d + length ?es\<rparr>, tr)"
    using a assms(1) by (simp add: openDir_ReadDir_fetched ReadDir_batch_bounded)
  have e: "?es = sort_key dirEntry_Name
                   (map ReadDir_entry (take (length ?es) (drop (offset d) (items d))))"
    unfolding len tk ..
  have pos: "0 < length ?es" using a by simp
  have le: "int (length ?es) \<le> cnt" using a unfolding len by linarith
  from r e len pos le
  show "\<exists>es. openDir_ReadDir env d cnt tr = (Ok es, d\<lparr>offset := offset d + length es\<rparr>, tr)
          \<and> es = sort_key dirEntry_Name
                    (map ReadDir_entry (take (length es) (drop (offset d) (items d))))
          \<and> length es = min (nat cnt) (length (items d) - offset d)
          \<and> 0 < length es \<and> int (length es) \<le> cnt"
    by blast
next
  assume "cnt < 0"
  then show "openDir_ReadDir env d cnt tr =
               (Ok (sort_key dirEntry_Name (map ReadDir_entry (drop (offset d) (items d)))),
                d\<lparr>offset := length (items d)\<rparr>, tr)"
    using assms by (simp add: openDir_ReadDir_fetched ReadDir_batch_all)
next
  assume "cnt < 0 \<and> offset d = length (items d)"
  then show "openDir_ReadDir env d cnt tr = (Ok [], d, tr)"
    using assms by (simp add: openDir_ReadDir_fetched ReadDir_batch_all)
qed

text \<open>
  The theorem on the fetched root of the example drive: two bounded reads, the end of the
  sequence, and the unbounded reads before and after draining.
\<close>

theorem ReadDir_cursor_witness:
  "getItemsOnce fetched_root_dir \<and> offset fetched_root_dir \<le> length (items fetched_root_dir)
   \<and> (0::int) < 1 \<and> offset fetched_root_dir < length (items fetched_root_dir)
   \<and> (\<exists>es. openDir_ReadDir exampleEnv fetched_root_dir 1 []
               = (Ok es, fetched_root_dir\<lparr>offset := 1\<rparr>, []) \<and> length es = 1)
   \<and> offset (fetched_root_dir\<lparr>offset := 2\<rparr>) = length (items (fetched_root_dir\<lparr>offset := 2\<rparr>))
   \<and> openDir_ReadDir exampleEnv (fetched_root_dir\<lparr>offset := 2\<rparr>) 1 []
       = (Err EOF, fetched_root_dir\<lparr>offset := 2\<rparr>, [])
   \<and> (- 1::int) < 0
   \<and> openDir_ReadDir exampleEnv fetched_root_dir (- 1) []
       = (Ok [ReadDir_entry item_README, ReadDir_entry item_subdir1],
          fetched_root_dir\<lparr>offset := 2\<rparr>, [])
   \<and> openDir_ReadDir exampleEnv (fetched_root_dir\<lparr>offset := 2\<rparr>) (- 1) []
       = (Ok [], fetched_root_dir\<lparr>offset := 2\<rparr>, [])"
proof -
  let ?d = fetched_root_dir
  let ?d2 = "fetched_root_dir\<lparr>offset := 2\<rparr>"
  have f: "getItemsOnce ?d" "getItemsOnce ?d2"
    by (simp_all add: fetched_root_dir_def)
  have i: "offset ?d \<le> length (items ?d)" "offset ?d2 \<le> length (items ?d2)"
    by (simp_all add: fetched_root_dir_def root_dir_def root_listing_def)
  have lt: "offset ?d < length (items ?d)"
    by (simp add: fetched_root_dir_def root_dir_def root_listing_def)
  have eq: "offset ?d2 = length (items ?d2)"
    by (simp add: fetched_root_dir_def root_dir_def root_listing_def)
  have o: "offset ?d = 0" by (simp add: fetched_root_dir_def root_dir_def)
  have its: "items ?d = [item_subdir1, item_README]"
    by (simp add: fetched_root_dir_def root_listing_def)
  from ReadDir_cursor[OF f(1) i(1), of 1 exampleEnv "[]"] lt
  have one: "\<exists>es. openDir_ReadDir exampleEnv ?d 1 [] = (Ok es, ?d\<lparr>offset := 1\<rparr>, [])
               \<and> length es = 1"
    by (auto simp: o its)
  from ReadDir_cursor[OF f(2) i(2), of 1 exampleEnv "[]"] eq
  have eof: "openDir_ReadDir exampleEnv ?d2 1 [] = (Err EOF, ?d2, [])" by simp
  from ReadDir_cursor[OF f(1) i(1), of "- 1" exampleEnv "[]"]
  have "openDir_ReadDir exampleEnv ?d (- 1) []
          = (Ok (sort_key dirEntry_Name (map ReadDir_entry [item_subdir1, item_README])),
             ?d\<lparr>offset := 2\<rparr>, [])"
    by (simp add: o its)
  then have all: "openDir_ReadDir exampleEnv ?d (- 1) []
          = (Ok [ReadDir_entry item_README, ReadDir_entry item_subdir1], ?d2, [])"
    by (simp add: item_README_def item_subdir1_def)
  from ReadDir_cursor[OF f(2) i(2), of "- 1" exampleEnv "[]"] eq
  have drained: "openDir_ReadDir exampleEnv ?d2 (- 1) [] = (Ok [], ?d2, [])" by simp
  from f(1) i(1) lt one eq eof all drained show ?thesis by simp
qed

subsection \<open>Bounded reads and the one-shot fetch\<close>

lemma ReadDir_batch_one:
  assumes "offset d < length (items d)"
  shows "ReadDir_batch d 1 = (Ok [ReadDir_entry (items d ! offset d)], d\<lparr>offset := Suc (offset d)\<rparr>)"
proof -
  have "take (Suc 0) (drop (offset d) (items d)) = [items d ! offset d]"
    using assms by (simp add: take_Suc_conv_app_nth)
  moreover have "min (Suc 0) (length (items d) - offset d) = Suc 0" using assms by simp
  ultimately show ?thesis using ReadDir_batch_bounded[OF _ assms, of 1] by simp
qed

text \<open>
  Draining a fetched handle one entry at a time yields the remaining entries in the order
  of the remote listing: each batch of one entry is sorted on its own.
\<close>

lemma drain_by_one_remote_order:
  assumes "getItemsOnce d" and "offset d \<le> length (items d)"
    and "length (items d) - offset d < fuel"
  shows "drain_by_one env fuel d tr = Some (Ok (map ReadDir_entry (drop (offset d) (items d))))"
  using assms
proof (induction fuel arbitrary: d)
  case 0
  then show ?case by simp
next
  case (Suc fuel)
  show ?case
  proof (cases "offset d = length (items d)")
    case True
    then show ?thesis
      using Suc.prems(1) by (simp add: openDir_ReadDir_fetched ReadDir_batch_EOF)
  next
    case False
    with Suc.prems have lt: "offset d < length (items d)" by simp
    let ?d' = "d\<lparr>offset := Suc (offset d)\<rparr>"
    have step: "openDir_ReadDir env d 1 tr = (Ok [ReadDir_entry (items d ! offset d)], ?d', tr)"
      using Suc.prems(1) by (simp add: openDir_ReadDir_fetched ReadDir_batch_one[OF lt])
    have "drain_by_one env fuel ?d' tr
            = Some (Ok (map ReadDir_entry (drop (offset ?d') (items ?d'))))"
      using Suc.prems lt by (intro Suc.IH) simp_all
    then show ?thesis
      using step lt by (simp add: Cons_nth_drop_Suc[symmetric])
  qed
qed

text \<open>
  After any call the flag of the one-shot fetch is set, and a call on a handle whose flag
  is set sends no request: the listing is requested at most once per handle.
\<close>

lemma openDir_ReadDir_sets_flag:
  "openDir_ReadDir env d cnt tr = (r, d', tr') \<Longrightarrow> getItemsOnce d'"
  by (auto simp: openDir_ReadDir_def getItemsOnce_Do_def ReadDir_batch_def Let_def
           split: if_splits prod.splits sum.splits option.splits)

lemma openDir_ReadDir_no_request_after_fetch:
  "getItemsOnce d \<Longrightarrow> openDir_ReadDir env d cnt tr = (r, d', tr') \<Longrightarrow> tr' = tr"
  by (auto simp: openDir_ReadDir_fetched split: prod.splits)

text \<open>
  A failed fetch is reported by the call that ran it and by no later call: the error is
  held in a local variable of that call, and the handle keeps an empty listing.
\<close>

lemma openDir_ReadDir_failed_fetch:
  assumes "\<not> getItemsOnce d" and "items d = []" and "offset d = 0"
    and "listDriveItems env (client (dir_fs d)) (dir_driveID d) (dir_dirID d) tr = (Inl err, tr')"
  shows "openDir_ReadDir env d cnt tr = (Err err, d\<lparr>getItemsOnce := True\<rparr>, tr')"
    and "openDir_ReadDir env (d\<lparr>getItemsOnce := True\<rparr>) cnt' tr'
           = (if 0 < cnt' then Err EOF else Ok [], d\<lparr>getItemsOnce := True\<rparr>, tr')"
  using assms
  by (simp_all add: openDir_ReadDir_def getItemsOnce_Do_def ReadDir_batch_def Let_def)

lemma list_broken:
  "listDriveItems exampleEnv (client (dir_fs broken_dir)) (dir_driveID broken_dir)
     (dir_dirID broken_dir) [broken_request]
   = (Inl (Wrapped ''Get'' (Foreign ''context deadline exceeded'')),
      [broken_request, broken_children_request])"
  by (simp add: example_defs client_defs go_URL_Parse_def Let_def go_PathEscape_def alphanum_def
        broken_dir_def broken_request_def broken_children_request_def)
    code_simp

lemma open_broken:
  "FS_Open exampleEnv exampleFS ''broken'' [] = (Ok (Dir broken_dir), [broken_request])"
  by (simp add: FS_Open_def validatePath_def backslash_def strings_TrimPrefix_def
        example_defs client_defs go_URL_Parse_def Let_def go_PathEscape_def alphanum_def
        broken_dir_def broken_request_def posix_IsAbs_def posix_Clean_def)

text \<open>
  Claim C2, on the code. The root of the example drive is listed by the remote as
  \<open>subdir1\<close>, \<open>README.md\<close>. Draining a fresh handle by reads of one entry yields the
  entries in that order; one unbounded read on a fresh handle yields them in the order of
  their names. The two sequences have the same entries and differ in order.
\<close>

theorem drain_by_one_keeps_remote_order:
  "drain_by_one exampleEnv 3 root_dir [root_request]
     = Some (Ok [ReadDir_entry item_subdir1, ReadDir_entry item_README])
   \<and> fst (openDir_ReadDir exampleEnv root_dir (- 1) [root_request])
       = Ok [ReadDir_entry item_README, ReadDir_entry item_subdir1]
   \<and> [ReadDir_entry item_subdir1, ReadDir_entry item_README]
       \<noteq> [ReadDir_entry item_README, ReadDir_entry item_subdir1]"
proof -
  let ?d = "root_dir\<lparr>getItemsOnce := True, items := DriveItems root_listing\<rparr>"
  have f: "\<not> getItemsOnce root_dir" by (simp add: root_dir_def)
  have l: "listDriveItems exampleEnv (client (dir_fs root_dir)) (dir_driveID root_dir)
             (dir_dirID root_dir) [root_request]
           = (Inr (Some root_listing), [root_request, root_children_request])"
    using list_root by (simp add: root_dir_def exampleFS_def OpenFS_def)
  have first: "openDir_ReadDir exampleEnv root_dir 1 [root_request]
                 = (Ok [ReadDir_entry item_subdir1], ?d\<lparr>offset := 1\<rparr>,
                    [root_request, root_children_request])"
    using root_dir_batch by simp
  have rest: "drain_by_one exampleEnv 2 (?d\<lparr>offset := 1\<rparr>) [root_request, root_children_request]
                = Some (Ok [ReadDir_entry item_README])"
    using drain_by_one_remote_order[of "?d\<lparr>offset := 1\<rparr>" 2 exampleEnv]
    by (simp add: root_dir_def root_listing_def)
  have "drain_by_one exampleEnv (Suc 2) root_dir [root_request]
          = Some (Ok [ReadDir_entry item_subdir1, ReadDir_entry item_README])"
    unfolding drain_by_one.simps first using rest by simp
  then have a: "drain_by_one exampleEnv 3 root_dir [root_request]
          = Some (Ok [ReadDir_entry item_subdir1, ReadDir_entry item_README])"
    by (simp add: numeral_3_eq_3)
  have b: "fst (openDir_ReadDir exampleEnv root_dir (- 1) [root_request])
             = Ok [ReadDir_entry item_README, ReadDir_entry item_subdir1]"
    unfolding openDir_ReadDir_fresh[OF f l]
    by (simp add: ReadDir_batch_all root_dir_def root_listing_def
          item_README_def item_subdir1_def)
  have c: "[ReadDir_entry item_subdir1, ReadDir_entry item_README]
             \<noteq> [ReadDir_entry item_README, ReadDir_entry item_subdir1]"
    by (simp add: ReadDir_entry_def item_README_def item_subdir1_def Let_def)
  from a b c show ?thesis by blast
qed

text \<open>
  Claim C3, on the code. The listing of the folder \<open>broken\<close> of the example drive fails
  at the transport. The first \<open>ReadDir\<close> on its handle sends the listing request and
  returns that error. A second call on the same handle sends nothing, and does not report
  the failure: with a negative count it returns an empty list and no error, with a
  positive count the end-of-sequence error.
\<close>

theorem failed_fetch_reported_once:
  "FS_Open exampleEnv exampleFS ''broken'' [] = (Ok (Dir broken_dir), [broken_request])
   \<and> openDir_ReadDir exampleEnv broken_dir (- 1) [broken_request]
       = (Err (Wrapped ''Get'' (Foreign ''context deadline exceeded'')),
          broken_dir\<lparr>getItemsOnce := True\<rparr>, [broken_request, broken_children_request])
   \<and> openDir_ReadDir exampleEnv (broken_dir\<lparr>getItemsOnce := True\<rparr>) (- 1)
         [broken_request, broken_children_request]
       = (Ok [], broken_dir\<lparr>getItemsOnce := True\<rparr>, [broken_request, broken_children_request])
   \<and> openDir_ReadDir exampleEnv (broken_dir\<lparr>getItemsOnce := True\<rparr>) 1
         [broken_request, broken_children_request]
       = (Err EOF, broken_dir\<lparr>getItemsOnce := True\<rparr>, [broken_request, broken_children_request])"
proof -
  have f: "\<not> getItemsOnce broken_dir" "items broken_dir = []" "offset broken_dir = 0"
    by (simp_all add: broken_dir_def)
  note ff = openDir_ReadDir_failed_fetch[OF f list_broken]
  from open_broken ff(1)[of "- 1"] ff(2)[of "- 1"] ff(2)[of 1] show ?thesis by simp
qed

section \<open>Properties of the facade\<close>

subsection \<open>Errors of the resolution\<close>

lemma FS_Open_resolution_error:
  assumes "validatePath env p = None"
    and "getDriveItemsByPath env (client f) (DriveID (opts f))
           (strings_TrimPrefix (if p = ''.'' then ''/'' else p) ''/'') tr = (Inl err, tr')"
  shows "FS_Open env f p tr =
           (Err (case errors_As err of
                   Some odErr \<Rightarrow> if Code odErr = ''itemNotFound'' then ErrNotExist else err
                 | None \<Rightarrow> err), tr')"
  using assms by (simp add: FS_Open_def ItemNotFoundErrorCode_def split: option.splits)

lemma FS_Stat_resolution_error:
  assumes "validatePath env p = None"
    and "getDriveItemsByPath env (client f) (DriveID (opts f))
           (strings_TrimPrefix (if p = ''.'' then ''/'' else p) ''/'') tr = (Inl err, tr')"
  shows "FS_Stat env f p tr =
           (Err (case errors_As err of
                   Some odErr \<Rightarrow> if Code odErr = ''itemNotFound'' then ErrNotExist else err
                 | None \<Rightarrow> err), tr')"
  using assms by (simp add: FS_Stat_def split: option.splits)

text \<open>
  Claim C4. Let the path pass validation and its resolution fail with the error \<open>err\<close>.
  If \<open>err\<close> is, or wraps, a remote API error (the first one on its chain) whose code is
  \<open>itemNotFound\<close>, then \<open>Open\<close> and \<open>Stat\<close> return \<open>fs.ErrNotExist\<close>. For every other
  \<open>err\<close>, whether a remote API error with another code, a cancellation or a transport
  failure, both return \<open>err\<close> itself.
\<close>

theorem resolution_error_mapping:
  assumes "validatePath env p = None"
    and "getDriveItemsByPath env (client f) (DriveID (opts f))
           (strings_TrimPrefix (if p = ''.'' then ''/'' else p) ''/'') tr = (Inl err, tr')"
  shows "((\<exists>e. errors_As err = Some e \<and> Code e = ''itemNotFound'') \<longrightarrow>
            FS_Open env f p tr = (Err ErrNotExist, tr')
            \<and> FS_Stat env f p tr = (Err ErrNotExist, tr'))
       \<and> (\<not> (\<exists>e. errors_As err = Some e \<and> Code e = ''itemNotFound'') \<longrightarrow>
            FS_Open env f p tr = (Err err, tr') \<and> FS_Stat env f p tr = (Err err, tr'))"
  unfolding FS_Open_resolution_error[OF assms] FS_Stat_resolution_error[OF assms]
  by (auto split: option.splits)

lemma validate_plain:
  "validatePath exampleEnv ''nope'' = None" "validatePath exampleEnv ''slow'' = None"
  by (simp_all add: validatePath_def exampleEnv_def posixEnv_def posix_IsAbs_def
        posix_Clean_def backslash_def)

lemma resolve_nope:
  "getDriveItemsByPath exampleEnv (client exampleFS) (DriveID (opts exampleFS))
     (strings_TrimPrefix (if ''nope'' = ''.'' then ''/'' else ''nope'') ''/'') []
   = (Inl (APIError (notFound\<lparr>ResponseHeader := [(''Request-Id'', [''42''])]\<rparr>)), [nope_request])"
  by (simp add: strings_TrimPrefix_def example_defs client_defs go_URL_Parse_def Let_def
        go_PathEscape_def alphanum_def nope_request_def)

lemma resolve_slow:
  "getDriveItemsByPath exampleEnv (client exampleFS) (DriveID (opts exampleFS))
     (strings_TrimPrefix (if ''slow'' = ''.'' then ''/'' else ''slow'') ''/'') []
   = (Inl (Wrapped ''Get'' (Foreign ''context deadline exceeded'')), [slow_request])"
  by (simp add: strings_TrimPrefix_def example_defs client_defs go_URL_Parse_def Let_def
        go_PathEscape_def alphanum_def slow_request_def)

text \<open>
  The theorem on the example drive: \<open>nope\<close> does not exist, and the resolution of
  \<open>slow\<close> runs into the deadline of the context.
\<close>

theorem resolution_error_mapping_witness:
  "validatePath exampleEnv ''nope'' = None
   \<and> (\<exists>e. errors_As (APIError (notFound\<lparr>ResponseHeader := [(''Request-Id'', [''42''])]\<rparr>)) = Some e
          \<and> Code e = ''itemNotFound'')
   \<and> FS_Open exampleEnv exampleFS ''nope'' [] = (Err ErrNotExist, [nope_request])
   \<and> FS_Stat exampleEnv exampleFS ''nope'' [] = (Err ErrNotExist, [nope_request])
   \<and> validatePath exampleEnv ''slow'' = None
   \<and> \<not> (\<exists>e. errors_As (Wrapped ''Get'' (Foreign ''context deadline exceeded'')) = Some e
            \<and> Code e = ''itemNotFound'')
   \<and> FS_Open exampleEnv exampleFS ''slow'' []
       = (Err (Wrapped ''Get'' (Foreign ''context deadline exceeded'')), [slow_request])
   \<and> FS_Stat exampleEnv exampleFS ''slow'' []
       = (Err (Wrapped ''Get'' (Foreign ''context deadline exceeded'')), [slow_request])"
proof -
  have a: "\<exists>e. errors_As (APIError (notFound\<lparr>ResponseHeader := [(''Request-Id'', [''42''])]\<rparr>))
                 = Some e \<and> Code e = ''itemNotFound''"
    by (simp add: notFound_def)
  have b: "\<not> (\<exists>e. errors_As (Wrapped ''Get'' (Foreign ''context deadline exceeded'')) = Some e
                 \<and> Code e = ''itemNotFound'')"
    by simp
  from resolution_error_mapping[OF validate_plain(1) resolve_nope] a
       resolution_error_mapping[OF validate_plain(2) resolve_slow] b
       validate_plain
  show ?thesis by blast
qed

subsection \<open>Path validation\<close>

lemma validatePath_invalid:
  assumes "IsAbs env p \<or> Clean env p \<noteq> p \<or> backslash \<in> set p"
  shows "\<exists>msg. validatePath env p = Some (ErrorString msg)"
  using assms by (auto simp: validatePath_def)

lemma doRequest_trace: "snd (doRequest env cl req decode tr) = tr @ [req]"
  by (simp add: doRequest_def split: sum.splits option.splits)

lemma getDriveItemsByPath_trace:
  assumes "newRequest env ''GET'' (getDriveItemsByPath_apiURL env driveID itemPath) = Inr req"
  shows "snd (getDriveItemsByPath env cl driveID itemPath tr) = tr @ [req]"
  using assms by (simp add: getDriveItemsByPath_def doRequest_trace)

lemma getDriveItemsByPath_apiURL_root:
  "getDriveItemsByPath_apiURL env driveID []
     = (if driveID = [] then ''me/drive/root''
        else ''/v1.0/drives/'' @ PathEscape env driveID @ ''/root'')"
  by (simp add: getDriveItemsByPath_apiURL_def)

lemma FS_Stat_trace:
  assumes "validatePath env p = None"
  shows "snd (FS_Stat env f p tr)
           = snd (getDriveItemsByPath env (client f) (DriveID (opts f))
                    (strings_TrimPrefix (if p = ''.'' then ''/'' else p) ''/'') tr)"
  using assms
  by (simp add: FS_Stat_def Let_def split: prod.splits sum.splits option.splits)

lemma FS_Open_trace:
  assumes "validatePath env p = None"
  shows "\<exists>rest. snd (FS_Open env f p tr)
           = snd (getDriveItemsByPath env (client f) (DriveID (opts f))
                    (strings_TrimPrefix (if p = ''.'' then ''/'' else p) ''/'') tr) @ rest"
  using assms
  by (simp add: FS_Open_def Let_def split: prod.splits sum.splits option.splits)

text \<open>
  Claim C5. If the path is absolute, or differs from its cleaned form, or contains a
  backslash, then \<open>Open\<close> and \<open>Stat\<close> both return a path error for the operation
  \<open>open\<close> and that path, and the trace of requests is unchanged: nothing is sent.
  The path \<open>.\<close>, which is neither absolute nor changed by cleaning, passes validation, and
  the request that \<open>Open\<close> and \<open>Stat\<close> then send addresses the root of the drive: the
  default drive's \<open>me/drive/root\<close>, or \<open>/v1.0/drives/{id}/root\<close> for a drive id, without
  a path suffix.
\<close>

theorem invalid_path_no_request:
  "(IsAbs env p \<or> Clean env p \<noteq> p \<or> backslash \<in> set p \<longrightarrow>
      (\<exists>msg. FS_Open env f p tr = (Err (PathError ''open'' p (ErrorString msg)), tr)
            \<and> FS_Stat env f p tr = (Err (PathError ''open'' p (ErrorString msg)), tr)))
   \<and> (\<not> IsAbs env ''.'' \<and> Clean env ''.'' = ''.'' \<longrightarrow>
        validatePath env ''.'' = None
        \<and> (\<forall>req. newRequest env ''GET''
                     (if DriveID (opts f) = [] then ''me/drive/root''
                      else ''/v1.0/drives/'' @ PathEscape env (DriveID (opts f)) @ ''/root'')
                   = Inr req \<longrightarrow>
               snd (FS_Stat env f ''.'' tr) = tr @ [req]
               \<and> (\<exists>rest. snd (FS_Open env f ''.'' tr) = tr @ req # rest)))"
proof (intro conjI impI allI)
  assume "IsAbs env p \<or> Clean env p \<noteq> p \<or> backslash \<in> set p"
  from validatePath_invalid[OF this] obtain msg where
    "validatePath env p = Some (ErrorString msg)" ..
  then have "FS_Open env f p tr = (Err (PathError ''open'' p (ErrorString msg)), tr)
           \<and> FS_Stat env f p tr = (Err (PathError ''open'' p (ErrorString msg)), tr)"
    by (simp add: FS_Open_def FS_Stat_def)
  then show "\<exists>msg. FS_Open env f p tr = (Err (PathError ''open'' p (ErrorString msg)), tr)
           \<and> FS_Stat env f p tr = (Err (PathError ''open'' p (ErrorString msg)), tr)" ..
next
  assume d: "\<not> IsAbs env ''.'' \<and> Clean env ''.'' = ''.''"
  then show v: "validatePath env ''.'' = None"
    by (simp add: validatePath_def backslash_def)
  fix req
  assume "newRequest env ''GET''
            (if DriveID (opts f) = [] then ''me/drive/root''
             else ''/v1.0/drives/'' @ PathEscape env (DriveID (opts f)) @ ''/root'') = Inr req"
  then have r: "newRequest env ''GET'' (getDriveItemsByPath_apiURL env (DriveID (opts f)) []) = Inr req"
    by (simp only: getDriveItemsByPath_apiURL_root)
  have t: "strings_TrimPrefix (if ''.'' = ''.'' then ''/'' else ''.'') ''/'' = []"
    by (simp add: strings_TrimPrefix_def)
  show "snd (FS_Stat env f ''.'' tr) = tr @ [req]"
    unfolding FS_Stat_trace[OF v] t by (rule getDriveItemsByPath_trace[OF r])
  from FS_Open_trace[OF v, of f tr]
  show "\<exists>rest. snd (FS_Open env f ''.'' tr) = tr @ req # rest"
    unfolding t getDriveItemsByPath_trace[OF r] by simp
qed

lemma example_invalid_paths:
  "IsAbs exampleEnv abs_path"
  "Clean exampleEnv unclean_path \<noteq> unclean_path"
  "backslash \<in> set backslash_path"
  "\<not> IsAbs exampleEnv backslash_path" "Clean exampleEnv backslash_path = backslash_path"
  by (simp_all add: exampleEnv_def posixEnv_def posix_IsAbs_def posix_Clean_def abs_path_def
        unclean_path_def backslash_path_def backslash_def)

lemma example_dot: "\<not> IsAbs exampleEnv ''.'' \<and> Clean exampleEnv ''.'' = ''.''"
  by (simp add: exampleEnv_def posixEnv_def posix_dot)

lemma example_root_request:
  "newRequest exampleEnv ''GET''
     (if DriveID (opts exampleFS) = [] then ''me/drive/root''
      else ''/v1.0/drives/'' @ PathEscape exampleEnv (DriveID (opts exampleFS)) @ ''/root'')
   = Inr root_request"
  by (simp add: example_defs client_defs go_URL_Parse_def)

text \<open>
  The theorem on the example drive: an absolute path, a path with a \<open>..\<close> element and a
  path with a backslash are rejected with nothing sent; \<open>.\<close> sends the request for
  \<open>me/drive/root\<close>.
\<close>

theorem invalid_path_no_request_witness:
  "IsAbs exampleEnv abs_path
   \<and> (\<exists>msg. FS_Open exampleEnv exampleFS abs_path []
               = (Err (PathError ''open'' abs_path (ErrorString msg)), [])
           \<and> FS_Stat exampleEnv exampleFS abs_path []
               = (Err (PathError ''open'' abs_path (ErrorString msg)), []))
   \<and> Clean exampleEnv unclean_path \<noteq> unclean_path
   \<and> (\<exists>msg. FS_Open exampleEnv exampleFS unclean_path []
               = (Err (PathError ''open'' unclean_path (ErrorString msg)), [])
           \<and> FS_Stat exampleEnv exampleFS unclean_path []
               = (Err (PathError ''open'' unclean_path (ErrorString msg)), []))
   \<and> backslash \<in> set backslash_path
   \<and> (\<exists>msg. FS_Open exampleEnv exampleFS backslash_path []
               = (Err (PathError ''open'' backslash_path (ErrorString msg)), [])
           \<and> FS_Stat exampleEnv exampleFS backslash_path []
               = (Err (PathError ''open'' backslash_path (ErrorString msg)), []))
   \<and> \<not> IsAbs exampleEnv ''.'' \<and> Clean exampleEnv ''.'' = ''.''
   \<and> validatePath exampleEnv ''.'' = None
   \<and> snd (FS_Stat exampleEnv exampleFS ''.'' []) = [root_request]
   \<and> (\<exists>rest. snd (FS_Open exampleEnv exampleFS ''.'' []) = root_request # rest)"
proof -
  note t = invalid_path_no_request[of exampleEnv _ exampleFS "[]"]
  from t[of abs_path] example_invalid_paths(1)
  have a: "\<exists>msg. FS_Open exampleEnv exampleFS abs_path []
               = (Err (PathError ''open'' abs_path (ErrorString msg)), [])
           \<and> FS_Stat exampleEnv exampleFS abs_path []
               = (Err (PathError ''open'' abs_path (ErrorString msg)), [])"
    by blast
  from t[of unclean_path] example_invalid_paths(2)
  have b: "\<exists>msg. FS_Open exampleEnv exampleFS unclean_path []
               = (Err (PathError ''open'' unclean_path (ErrorString msg)), [])
           \<and> FS_Stat exampleEnv exampleFS unclean_path []
               = (Err (PathError ''open'' unclean_path (ErrorString msg)), [])"
    by blast
  from t[of backslash_path] example_invalid_paths(3)
  have c: "\<exists>msg. FS_Open exampleEnv exampleFS backslash_path []
               = (Err (PathError ''open'' backslash_path (ErrorString msg)), [])
           \<and> FS_Stat exampleEnv exampleFS backslash_path []
               = (Err (PathError ''open'' backslash_path (ErrorString msg)), [])"
    by blast
  from t[of "''.''"] example_dot example_root_request
  have d: "validatePath exampleEnv ''.'' = None
           \<and> snd (FS_Stat exampleEnv exampleFS ''.'' []) = [root_request]
           \<and> (\<exists>rest. snd (FS_Open exampleEnv exampleFS ''.'' []) = root_request # rest)"
    by simp
  from a b c d example_invalid_paths(1,2,3) example_dot show ?thesis by blast
qed

section \<open>Properties of the remote item client\<close>

subsection \<open>Error translation\<close>

text \<open>
  Claim C6. Let the client answer the request with a response. If its status code is at
  least 400, \<open>doRequest\<close> returns an error and never a value: when the body decodes to an
  error object, that remote API error with the response's headers attached; when the body
  does not decode, or decodes without an error object, the error whose text is
  \<open>unexpected error: \<close> followed by the response's status. If the status code is 204,
  \<open>doRequest\<close> returns without an error and leaves the target as it was (\<open>nil\<close>),
  whatever the decoder of the target's type would make of the body. The function has no panicking
  outcome.
\<close>

theorem doRequest_error_translation:
  assumes "cl req = Inr resp"
  shows "(400 \<le> StatusCode resp \<longrightarrow>
            (\<forall>e. decodeError env (Body resp) = Inr (Some e) \<longrightarrow>
                  doRequest env cl req decode tr
                    = (Inl (APIError (e\<lparr>ResponseHeader := Header resp\<rparr>)), tr @ [req]))
            \<and> (decodeError env (Body resp) = Inr None \<or> (\<exists>x. decodeError env (Body resp) = Inl x) \<longrightarrow>
                  doRequest env cl req decode tr
                    = (Inl (ErrorString (''unexpected error: '' @ Status resp)), tr @ [req]))
            \<and> (\<exists>err. fst (doRequest env cl req decode tr) = Inl err))
       \<and> (StatusCode resp = 204 \<longrightarrow>
            doRequest env cl req decode tr = (Inr None, tr @ [req]))"
  using assms
  by (auto simp: doRequest_def split: sum.splits option.splits)

text \<open>
  The theorem at four responses: a 404 with a decodable error body, a 429 whose body is
  an empty JSON object, a 502 whose body is not JSON, and a 204.
\<close>

theorem doRequest_error_translation_witness:
  "doRequest probeEnv (\<lambda>r. Inr (answer 404 ''404 Not Found'' ''not found'')) probe
       (decodeItem probeEnv) []
     = (Inl (APIError (notFound\<lparr>ResponseHeader := [(''Retry-After'', [''7''])]\<rparr>)), [probe])
   \<and> doRequest probeEnv (\<lambda>r. Inr (answer 429 ''429 Too Many Requests'' ''{}'')) probe
       (decodeItem probeEnv) []
     = (Inl (ErrorString ''unexpected error: 429 Too Many Requests''), [probe])
   \<and> doRequest probeEnv (\<lambda>r. Inr (answer 502 ''502 Bad Gateway'' ''<html>'')) probe
       (decodeItem probeEnv) []
     = (Inl (ErrorString ''unexpected error: 502 Bad Gateway''), [probe])
   \<and> doRequest probeEnv (\<lambda>r. Inr (answer 204 ''204 No Content'' ''root'')) probe
       (\<lambda>b. Inr (Some item_root)) []
     = (Inr None, [probe])"
proof -
  have d: "decodeError probeEnv (Body (answer 404 ''404 Not Found'' ''not found'')) = Inr (Some notFound)"
    "decodeError probeEnv (Body (answer 429 ''429 Too Many Requests'' ''{}'')) = Inr None"
    "decodeError probeEnv (Body (answer 502 ''502 Bad Gateway'' ''<html>''))
       = Inl (Foreign ''invalid character'')"
    by (simp_all add: probeEnv_def posixEnv_def answer_def)
  have s: "400 \<le> StatusCode (answer 404 ''404 Not Found'' ''not found'')"
    "400 \<le> StatusCode (answer 429 ''429 Too Many Requests'' ''{}'')"
    "400 \<le> StatusCode (answer 502 ''502 Bad Gateway'' ''<html>'')"
    "StatusCode (answer 204 ''204 No Content'' ''root'') = 204"
    by (simp_all add: answer_def)
  have h: "Header (answer 404 ''404 Not Found'' ''not found'') = [(''Retry-After'', [''7''])]"
    "Status (answer 429 ''429 Too Many Requests'' ''{}'') = ''429 Too Many Requests''"
    "Status (answer 502 ''502 Bad Gateway'' ''<html>'') = ''502 Bad Gateway''"
    by (simp_all add: answer_def)
  note t = doRequest_error_translation[where env = probeEnv and req = probe and tr = "[]"
      and decode = "decodeItem probeEnv"]
  note u = doRequest_error_translation[where env = probeEnv and req = probe and tr = "[]"
      and decode = "\<lambda>b. Inr (Some item_root)"]
  from t[of "\<lambda>r. Inr (answer 404 ''404 Not Found'' ''not found'')"] s(1) d(1) h(1)
  have a: "doRequest probeEnv (\<lambda>r. Inr (answer 404 ''404 Not Found'' ''not found'')) probe
       (decodeItem probeEnv) []
     = (Inl (APIError (notFound\<lparr>ResponseHeader := [(''Retry-After'', [''7''])]\<rparr>)), [probe])"
    by simp
  from t[of "\<lambda>r. Inr (answer 429 ''429 Too Many Requests'' ''{}'')"] s(2) d(2) h(2)
  have b: "doRequest probeEnv (\<lambda>r. Inr (answer 429 ''429 Too Many Requests'' ''{}'')) probe
       (decodeItem probeEnv) []
     = (Inl (ErrorString ''unexpected error: 429 Too Many Requests''), [probe])"
    by simp
  from t[of "\<lambda>r. Inr (answer 502 ''502 Bad Gateway'' ''<html>'')"] s(3) d(3) h(3)
  have c: "doRequest probeEnv (\<lambda>r. Inr (answer 502 ''502 Bad Gateway'' ''<html>'')) probe
       (decodeItem probeEnv) []
     = (Inl (ErrorString ''unexpected error: 502 Bad Gateway''), [probe])"
    by simp
  from u[of "\<lambda>r. Inr (answer 204 ''204 No Content'' ''root'')"] s(4)
  have e: "doRequest probeEnv (\<lambda>r. Inr (answer 204 ''204 No Content'' ''root'')) probe
       (\<lambda>b. Inr (Some item_root)) []
     = (Inr None, [probe])"
    by simp
  from a b c e show ?thesis by blast
qed

section \<open>Metadata of a resolved item\<close>

lemma mode_dir_bits:
  "o555 + ModeDir = o555 OR ModeDir" "bit (o555 OR ModeDir) 31"
  "(o555 OR ModeDir) AND ModePerm = o555" "\<not> bit o555 31" "o555 AND ModePerm = o555"
  by (simp_all add: o555_def ModeDir_def ModePerm_def)

lemma FS_Stat_resolved:
  assumes "validatePath env p = None"
    and "getDriveItemsByPath env (client f) (DriveID (opts f))
           (strings_TrimPrefix (if p = ''.'' then ''/'' else p) ''/'') tr = (Inr (Some item), tr')"
  shows "FS_Stat env f p tr =
           (Ok \<lparr>name = (if Folder item \<and> Root item then ''.'' else Name item),
                size' = Size item,
                mode = (if Folder item then o555 + ModeDir else o555),
                modTime = LastModifiedDateTime item,
                isDir = Folder item\<rparr>, tr')"
  using assms by (simp add: FS_Stat_def)

lemma FS_Open_resolved_dir:
  assumes "validatePath env p = None"
    and "getDriveItemsByPath env (client f) (DriveID (opts f))
           (strings_TrimPrefix (if p = ''.'' then ''/'' else p) ''/'') tr = (Inr (Some item), tr')"
    and "Folder item"
  shows "\<exists>dir. FS_Open env f p tr = (Ok (Dir dir), tr')
           \<and> dir_fileInfo dir =
               \<lparr>name = (if Root item then ''.'' else Name item),
                size' = Size item,
                mode = o555 + ModeDir,
                modTime = LastModifiedDateTime item,
                isDir = True\<rparr>"
  using assms by (simp add: FS_Open_def)

lemma FS_Open_resolved_file:
  assumes "validatePath env p = None"
    and "getDriveItemsByPath env (client f) (DriveID (opts f))
           (strings_TrimPrefix (if p = ''.'' then ''/'' else p) ''/'') tr = (Inr (Some item), tr')"
    and "\<not> Folder item"
    and "FS_Open env f p tr = (Ok file, t)"
  shows "fs_File_Stat file =
           \<lparr>name = Name item,
            size' = Size item,
            mode = o555,
            modTime = LastModifiedDateTime item,
            isDir = False\<rparr>"
  using assms
  by (auto simp: FS_Open_def fs_File_Stat_def Let_def split: if_splits option.splits sum.splits)

text \<open>
  Claim C8. Once a valid path has resolved to a remote item, \<open>Stat\<close> returns metadata
  without an error, and the handle that \<open>Open\<close> returns carries the same metadata. Size
  and modification time are those of the item, unchanged. For an item with the folder
  marker the mode is \<open>0o555\<close> with the directory bit added (permission bits \<open>0o555\<close>,
  bit 31 set) and \<open>isDir\<close> is true, and \<open>Open\<close> returns a directory handle; the name is
  \<open>.\<close> when the folder carries the root marker and the remote name otherwise. For an item
  without the folder marker the mode is exactly \<open>0o555\<close>, \<open>isDir\<close> is false and the name
  is the remote name.
\<close>

theorem metadata_projection:
  assumes "validatePath env p = None"
    and "getDriveItemsByPath env (client f) (DriveID (opts f))
           (strings_TrimPrefix (if p = ''.'' then ''/'' else p) ''/'') tr = (Inr (Some item), tr')"
  shows "\<exists>fi. FS_Stat env f p tr = (Ok fi, tr')
           \<and> size' fi = Size item \<and> modTime fi = LastModifiedDateTime item
           \<and> isDir fi = Folder item
           \<and> (Folder item \<longrightarrow>
                mode fi = o555 OR ModeDir \<and> bit (mode fi) 31 \<and> mode fi AND ModePerm = o555
                \<and> (Root item \<longrightarrow> name fi = ''.'') \<and> (\<not> Root item \<longrightarrow> name fi = Name item)
                \<and> (\<exists>dir. FS_Open env f p tr = (Ok (Dir dir), tr') \<and> dir_fileInfo dir = fi))
           \<and> (\<not> Folder item \<longrightarrow>
                mode fi = o555 \<and> \<not> bit (mode fi) 31 \<and> name fi = Name item
                \<and> (\<forall>file t. FS_Open env f p tr = (Ok file, t) \<longrightarrow> fs_File_Stat file = fi))"
proof (cases "Folder item")
  case True
  from FS_Open_resolved_dir[OF assms True] obtain dir where
    "FS_Open env f p tr = (Ok (Dir dir), tr')"
    "dir_fileInfo dir =
       \<lparr>name = (if Root item then ''.'' else Name item), size' = Size item,
        mode = o555 + ModeDir, modTime = LastModifiedDateTime item, isDir = True\<rparr>"
    by blast
  with True show ?thesis
    unfolding FS_Stat_resolved[OF assms] by (simp add: mode_dir_bits)
next
  case False
  with FS_Open_resolved_file[OF assms False] show ?thesis
    unfolding FS_Stat_resolved[OF assms] by (simp add: mode_dir_bits)
qed

lemma validate_examples:
  "validatePath exampleEnv ''.'' = None" "validatePath exampleEnv ''README.md'' = None"
  "validatePath exampleEnv ''broken'' = None"
  by (simp_all add: validatePath_def exampleEnv_def posixEnv_def posix_IsAbs_def
        posix_Clean_def backslash_def)

lemma resolve_examples:
  "getDriveItemsByPath exampleEnv (client exampleFS) (DriveID (opts exampleFS))
     (strings_TrimPrefix (if ''.'' = ''.'' then ''/'' else ''.'') ''/'') []
   = (Inr (Some item_root), [root_request])"
  "getDriveItemsByPath exampleEnv (client exampleFS) (DriveID (opts exampleFS))
     (strings_TrimPrefix (if ''README.md'' = ''.'' then ''/'' else ''README.md'') ''/'') []
   = (Inr (Some item_README), [readme_request])"
  "getDriveItemsByPath exampleEnv (client exampleFS) (DriveID (opts exampleFS))
     (strings_TrimPrefix (if ''broken'' = ''.'' then ''/'' else ''broken'') ''/'') []
   = (Inr (Some item_broken), [broken_request])"
  by (simp_all add: strings_TrimPrefix_def example_defs client_defs go_URL_Parse_def Let_def
        go_PathEscape_def alphanum_def readme_request_def broken_request_def)

text \<open>
  The theorem on the example drive: the root (a folder with the root marker, whose remote
  name is \<open>onedrivefs_test\<close>), the folder \<open>broken\<close> and the file \<open>README.md\<close>.
\<close>

theorem metadata_projection_witness:
  "validatePath exampleEnv ''.'' = None \<and> Folder item_root \<and> Root item_root
   \<and> FS_Stat exampleEnv exampleFS ''.'' []
       = (Ok \<lparr>name = ''.'', size' = 62, mode = o555 OR ModeDir, modTime = 1700, isDir = True\<rparr>,
          [root_request])
   \<and> validatePath exampleEnv ''broken'' = None \<and> Folder item_broken \<and> \<not> Root item_broken
   \<and> FS_Stat exampleEnv exampleFS ''broken'' []
       = (Ok \<lparr>name = ''broken'', size' = 0, mode = o555 OR ModeDir, modTime = 1703, isDir = True\<rparr>,
          [broken_request])
   \<and> validatePath exampleEnv ''README.md'' = None \<and> \<not> Folder item_README
   \<and> FS_Stat exampleEnv exampleFS ''README.md'' []
       = (Ok \<lparr>name = ''README.md'', size' = 33, mode = o555, modTime = 1701, isDir = False\<rparr>,
          [readme_request])
   \<and> (\<exists>dir. FS_Open exampleEnv exampleFS ''.'' [] = (Ok (Dir dir), [root_request])
          \<and> name (dir_fileInfo dir) = ''.'' \<and> bit (mode (dir_fileInfo dir)) 31)"
proof -
  have m: "Folder item_root" "Root item_root" "Folder item_broken" "\<not> Root item_broken"
    "\<not> Folder item_README"
    by (simp_all add: example_defs)
  from metadata_projection[OF validate_examples(1) resolve_examples(1)] m(1,2)
  obtain fi where r: "FS_Stat exampleEnv exampleFS ''.'' [] = (Ok fi, [root_request])"
    "size' fi = Size item_root" "modTime fi = LastModifiedDateTime item_root"
    "isDir fi = Folder item_root" "mode fi = o555 OR ModeDir" "bit (mode fi) 31" "name fi = ''.''"
    "\<exists>dir. FS_Open exampleEnv exampleFS ''.'' [] = (Ok (Dir dir), [root_request])
       \<and> dir_fileInfo dir = fi"
    by blast
  then have a: "FS_Stat exampleEnv exampleFS ''.'' []
       = (Ok \<lparr>name = ''.'', size' = 62, mode = o555 OR ModeDir, modTime = 1700, isDir = True\<rparr>,
          [root_request])"
    by (cases fi) (simp add: item_root_def)
  from r have o: "\<exists>dir. FS_Open exampleEnv exampleFS ''.'' [] = (Ok (Dir dir), [root_request])
          \<and> name (dir_fileInfo dir) = ''.'' \<and> bit (mode (dir_fileInfo dir)) 31"
    by blast
  from metadata_projection[OF validate_examples(3) resolve_examples(3)] m(3,4)
  obtain fb where "FS_Stat exampleEnv exampleFS ''broken'' [] = (Ok fb, [broken_request])"
    "size' fb = Size item_broken" "modTime fb = LastModifiedDateTime item_broken"
    "isDir fb = Folder item_broken" "mode fb = o555 OR ModeDir" "name fb = Name item_broken"
    by blast
  then have b: "FS_Stat exampleEnv exampleFS ''broken'' []
       = (Ok \<lparr>name = ''broken'', size' = 0, mode = o555 OR ModeDir, modTime = 1703, isDir = True\<rparr>,
          [broken_request])"
    by (cases fb) (simp add: item_broken_def)
  from metadata_projection[OF validate_examples(2) resolve_examples(2)] m(5)
  obtain ff where "FS_Stat exampleEnv exampleFS ''README.md'' [] = (Ok ff, [readme_request])"
    "size' ff = Size item_README" "modTime ff = LastModifiedDateTime item_README"
    "isDir ff = Folder item_README" "mode ff = o555" "name ff = Name item_README"
    by blast
  then have c: "FS_Stat exampleEnv exampleFS ''README.md'' []
       = (Ok \<lparr>name = ''README.md'', size' = 33, mode = o555, modTime = 1701, isDir = False\<rparr>,
          [readme_request])"
    by (cases ff) (simp add: item_README_def)
  from a b c o m validate_examples show ?thesis by blast
qed

section \<open>The URL of the children listing\<close>

text \<open>
  What \<open>listDriveItems\<close> builds, for every drive id and folder id: relative to the base
  URL, the path \<open>me/drive\<close> for the empty drive id and \<open>me/drives/\<close> followed by the
  escaped drive id otherwise, then \<open>root\<close> for the empty folder id and \<open>items/\<close>
  followed by the escaped folder id otherwise, then \<open>children\<close>. When the URL resolves
  against the base URL and the request can be built, exactly one request is sent: a
  \<open>GET\<close> of the resolved URL whose query is the encoding of \<open>$orderby\<close> = \<open>name asc\<close>.
\<close>

lemma listDriveItems_request:
  "listDriveItems_apiURL env driveID folderID
     = (if driveID = [] then ''me/drive'' else ''me/drives/'' @ PathEscape env driveID)
       @ ''/'' @ (if folderID = [] then ''root'' else ''items/'' @ PathEscape env folderID)
       @ ''/children''
   \<and> (\<forall>u. URL_Parse env baseURL (listDriveItems_apiURL env driveID folderID) = Inr u
            \<and> http_NewRequest env ''GET'' u = None \<longrightarrow>
          snd (listDriveItems env cl driveID folderID tr)
            = tr @ [\<lparr>Method = ''GET'', URL = u, RawQuery = ValuesEncode env orderby\<rparr>])"
proof (intro conjI allI impI)
  show "listDriveItems_apiURL env driveID folderID
     = (if driveID = [] then ''me/drive'' else ''me/drives/'' @ PathEscape env driveID)
       @ ''/'' @ (if folderID = [] then ''root'' else ''items/'' @ PathEscape env folderID)
       @ ''/children''"
    by (simp add: listDriveItems_apiURL_def)
next
  fix u
  assume "URL_Parse env baseURL (listDriveItems_apiURL env driveID folderID) = Inr u
            \<and> http_NewRequest env ''GET'' u = None"
  then have "newRequest env ''GET'' (listDriveItems_apiURL env driveID folderID)
               = Inr \<lparr>Method = ''GET'', URL = u, RawQuery = []\<rparr>"
    by (simp add: newRequest_def)
  then show "snd (listDriveItems env cl driveID folderID tr)
            = tr @ [\<lparr>Method = ''GET'', URL = u, RawQuery = ValuesEncode env orderby\<rparr>]"
    by (simp add: listDriveItems_def doRequest_trace orderby_def)
qed

text \<open>
  With the empty drive id the path is the one the specification gives; with a drive id it
  never is, whatever the escaping: the two paths start with different letters.
\<close>

lemma listDriveItems_default_drive:
  "listDriveItems_apiURL env [] folderID = spec_children_path env [] folderID"
  by (simp add: listDriveItems_apiURL_def spec_children_path_def)

lemma listDriveItems_other_drive:
  "driveID \<noteq> [] \<Longrightarrow>
     listDriveItems_apiURL env driveID folderID \<noteq> spec_children_path env driveID folderID"
  by (simp add: listDriveItems_apiURL_def spec_children_path_def)

text \<open>The request for the folder \<open>F\<close> of the drive \<open>b!x y\<close>, whose id needs escaping.\<close>

lemma listDriveItems_request_example:
  "snd (listDriveItems posixEnv exampleClient ''b!x y'' ''F'' [])
     = [\<lparr>Method = ''GET'',
          URL = ''https://graph.microsoft.com/v1.0/me/drives/b%21x%20y/items/F/children'',
          RawQuery = ''%24orderby=name+asc''\<rparr>]"
proof -
  have a: "listDriveItems_apiURL posixEnv ''b!x y'' ''F'' = ''me/drives/b%21x%20y/items/F/children''"
    by (simp add: listDriveItems_apiURL_def posixEnv_def go_PathEscape_def alphanum_def
          escape_byte_def upperhex_def)
  have p: "URL_Parse posixEnv baseURL (listDriveItems_apiURL posixEnv ''b!x y'' ''F'')
       = Inr ''https://graph.microsoft.com/v1.0/me/drives/b%21x%20y/items/F/children''"
    unfolding a by (simp add: posixEnv_def go_URL_Parse_def baseURL_def)
  have n: "http_NewRequest posixEnv ''GET''
        ''https://graph.microsoft.com/v1.0/me/drives/b%21x%20y/items/F/children'' = None"
    by (simp add: posixEnv_def)
  have q: "ValuesEncode posixEnv orderby = ''%24orderby=name+asc''"
    unfolding posixEnv_def orderby_def by simp code_simp
  from listDriveItems_request[of posixEnv "''b!x y''" "''F''" exampleClient "[]"] p n
  show ?thesis by (simp add: q)
qed

text \<open>
  Claim C9, on the code. For the drive \<open>D\<close> and the folder \<open>F\<close>, \<open>listDriveItems\<close>
  requests \<open>me/drives/D/items/F/children\<close> under the base URL. The form of the claim is
  \<open>drives/D/items/F/children\<close>, and \<open>drives/D\<close> under the base URL is also the address
  under which \<open>getDriveItemsByPath\<close> resolves a path of the same drive: one filesystem
  resolves and lists one drive under two different addresses.
\<close>

theorem listDriveItems_drive_path:
  "listDriveItems_apiURL posixEnv ''D'' ''F'' = ''me/drives/D/items/F/children''
   \<and> spec_children_path posixEnv ''D'' ''F'' = ''drives/D/items/F/children''
   \<and> URL_Parse posixEnv baseURL (listDriveItems_apiURL posixEnv ''D'' ''F'')
       = Inr ''https://graph.microsoft.com/v1.0/me/drives/D/items/F/children''
   \<and> listDriveItems_apiURL posixEnv ''D'' ''F'' \<noteq> spec_children_path posixEnv ''D'' ''F''
   \<and> URL_Parse posixEnv baseURL (getDriveItemsByPath_apiURL posixEnv ''D'' ''a'')
       = Inr ''https://graph.microsoft.com/v1.0/drives/D/root:/a''"
  by (simp add: listDriveItems_apiURL_def getDriveItemsByPath_apiURL_def spec_children_path_def
        posixEnv_def go_PathEscape_def alphanum_def go_URL_Parse_def baseURL_def Let_def)

section \<open>Reading a directory as a file\<close>

text \<open>
  \<open>ReadFile\<close> on a path that opens as a directory reserves the directory's reported
  size in the buffer before it reads: it panics when the size is negative or cannot be
  allocated, and returns the error of the directory's \<open>Read\<close> otherwise. It never returns
  bytes.
\<close>

lemma openDir_Read_invalid:
  "openDir_Read d = (0, PathError ''read'' (name (dir_fileInfo d)) ErrInvalid)"
  by (simp add: openDir_Read_def)

lemma FS_ReadFile_Dir:
  assumes "FS_Open env f p tr = (Ok (Dir dir), tr')"
  shows "FS_ReadFile env f p tr =
           (if sint (size' (dir_fileInfo dir)) < 0 then Panic NegativeCount
            else if \<not> canAllocate env (nat (sint (size' (dir_fileInfo dir))))
              then Panic ErrTooLarge
            else Err (PathError ''read'' (name (dir_fileInfo dir)) ErrInvalid), tr')"
  using assms
  by (simp add: FS_ReadFile_def fs_File_Stat_def io_Copy_def openDir_Read_def
        bytes_Buffer_Grow_def)

lemma FS_ReadFile_Dir_no_bytes:
  assumes "FS_Open env f p tr = (Ok (Dir dir), tr')"
  shows "FS_ReadFile env f p tr \<noteq> (Ok buf, t)"
  unfolding FS_ReadFile_Dir[OF assms] by simp

lemma FS_ReadFile_Dir_allocated:
  assumes "FS_Open env f p tr = (Ok (Dir dir), tr')"
    and "0 \<le> sint (size' (dir_fileInfo dir))"
    and "canAllocate env (nat (sint (size' (dir_fileInfo dir))))"
  shows "FS_ReadFile env f p tr
           = (Err (PathError ''read'' (name (dir_fileInfo dir)) ErrInvalid), tr')"
  unfolding FS_ReadFile_Dir[OF assms(1)] using assms(2,3) by simp

lemma FS_ReadFile_Dir_too_large:
  assumes "FS_Open env f p tr = (Ok (Dir dir), tr')"
    and "0 \<le> sint (size' (dir_fileInfo dir))"
    and "\<not> canAllocate env (nat (sint (size' (dir_fileInfo dir))))"
  shows "FS_ReadFile env f p tr = (Panic ErrTooLarge, tr')"
  unfolding FS_ReadFile_Dir[OF assms(1)] using assms(2,3) by simp

lemma open_huge:
  "FS_Open exampleEnv exampleFS ''huge'' [] = (Ok (Dir huge_dir), [huge_request])"
  by (simp add: FS_Open_def validatePath_def backslash_def strings_TrimPrefix_def
        example_defs client_defs go_URL_Parse_def Let_def go_PathEscape_def alphanum_def
        item_huge_def huge_dir_def huge_request_def posix_IsAbs_def posix_Clean_def)

lemma huge_dir_size:
  "0 \<le> sint (size' (dir_fileInfo huge_dir))"
  "\<not> canAllocate exampleEnv (nat (sint (size' (dir_fileInfo huge_dir))))"
  by (simp_all add: huge_dir_def exampleEnv_def posixEnv_def)

text \<open>
  Claim C10, on the code. The folder \<open>huge\<close> of the example drive reports the largest
  \<open>int64\<close> as its size, more than any buffer can hold. \<open>ReadFile\<close> opens it as a
  directory, whose \<open>Read\<close> would return the path error with \<open>fs.ErrInvalid\<close>, but
  \<open>ReadFile\<close> does not get to the copy and returns no error: reserving the reported size
  in the buffer panics with \<open>bytes.ErrTooLarge\<close>. On the root of the example drive, whose
  size is small, \<open>ReadFile\<close> returns the path error.
\<close>

theorem ReadFile_directory_panics:
  "FS_Open exampleEnv exampleFS ''huge'' [] = (Ok (Dir huge_dir), [huge_request])
   \<and> openDir_Read huge_dir = (0, PathError ''read'' ''huge'' ErrInvalid)
   \<and> FS_ReadFile exampleEnv exampleFS ''huge'' [] = (Panic ErrTooLarge, [huge_request])
   \<and> FS_ReadFile exampleEnv exampleFS ''.'' []
       = (Err (PathError ''read'' ''.'' ErrInvalid), [root_request])"
proof -
  have r: "0 \<le> sint (size' (dir_fileInfo root_dir))"
    "canAllocate exampleEnv (nat (sint (size' (dir_fileInfo root_dir))))"
    "name (dir_fileInfo root_dir) = ''.''"
    by (simp_all add: root_dir_def exampleEnv_def posixEnv_def)
  have h: "name (dir_fileInfo huge_dir) = ''huge''" by (simp add: huge_dir_def)
  from FS_ReadFile_Dir_too_large[OF open_huge huge_dir_size]
       FS_ReadFile_Dir_allocated[OF open_root r(1,2)] r(3) h open_huge
       openDir_Read_invalid[of huge_dir]
  show ?thesis by simp
qed

end
